theory Spec2Isabelle
  imports Main "HOL-Library.Char_ord" "HOL-Library.List_Lexorder"
begin

section \<open>Hospital management application: data model and request handlers\<close>

text \<open>
  A shallow embedding of \<^verbatim>\<open>app/models.py\<close> and \<^verbatim>\<open>app/routes.py\<close>.
  Tables are lists of rows in insertion order, a handler is a function from the stored
  state and the request to an outcome (response, flashed messages, stored state, session
  effect). Exceptions are values of \<open>py_exn + 'a\<close>. The Python standard library, the
  password hashing primitive, the form library's e-mail validator and the answers of the
  store to the statements it is sent are collaborators: the handlers take them as the
  fields of a record, so every theorem holds for whatever these collaborators compute.
\<close>

subsection \<open>Exceptions and strings\<close>

datatype py_exn = ValueError | TypeError | AttributeError | IntegrityError | OperationalError

text \<open>
  A string is the list of its code points, and a \<open>char\<close> is a code point below 256: the
  model covers the strings of that range. \<^verbatim>\<open>str.isspace()\<close> holds there of 0x09 to
  0x0d, 0x1c to 0x20, 0x85 (next line) and 0xa0 (no-break space), and \<^verbatim>\<open>str.strip()\<close>
  removes the leading and the trailing characters it holds of.
\<close>

definition isspace :: "char \<Rightarrow> bool" where
  "isspace c =
     (let n = (of_char c :: nat)
      in (9 \<le> n \<and> n \<le> 13) \<or> (28 \<le> n \<and> n \<le> 32) \<or> n = 133 \<or> n = 160)"

definition strip :: "string \<Rightarrow> string" where
  "strip s = rev (dropWhile isspace (rev (dropWhile isspace s)))"

text \<open>Decimal rendering of a number, and \<^verbatim>\<open>%0wd\<close>: at least \<open>w\<close> digits, zero padded.\<close>

definition digit :: "nat \<Rightarrow> char" where
  "digit n = char_of (48 + n mod 10)"

fun dec :: "nat \<Rightarrow> string" where
  "dec n = (if n < 10 then [digit n] else dec (n div 10) @ [digit (n mod 10)])"

declare dec.simps [simp del]

definition pad0 :: "nat \<Rightarrow> nat \<Rightarrow> string" where
  "pad0 w n = replicate (w - length (dec n)) (CHR ''0'') @ dec n"

subsection \<open>\<^verbatim>\<open>datetime\<close> values\<close>

text \<open>
  A \<^verbatim>\<open>datetime.datetime\<close> object: the calendar fields, the microsecond, and the UTC
  offset of an aware value in microseconds (\<open>None\<close> for a naive value).
\<close>

record datetime =
  year :: nat
  month :: nat
  day :: nat
  hour :: nat
  minute :: nat
  second :: nat
  microsecond :: nat
  utcoffset :: "int option"

definition is_leap :: "nat \<Rightarrow> bool" where
  "is_leap y = (y mod 4 = 0 \<and> (y mod 100 \<noteq> 0 \<or> y mod 400 = 0))"

definition days_in_month :: "nat \<Rightarrow> nat \<Rightarrow> nat" where
  "days_in_month y m =
     (if m = 2 then (if is_leap y then 29 else 28)
      else if m = 4 \<or> m = 6 \<or> m = 9 \<or> m = 11 then 30 else 31)"

text \<open>The invariant the constructor of \<^verbatim>\<open>datetime\<close> enforces on every object.\<close>

definition valid_datetime :: "datetime \<Rightarrow> bool" where
  "valid_datetime d =
     (1 \<le> year d \<and> year d \<le> 9999 \<and> 1 \<le> month d \<and> month d \<le> 12 \<and>
      1 \<le> day d \<and> day d \<le> days_in_month (year d) (month d) \<and>
      hour d < 24 \<and> minute d < 60 \<and> second d < 60 \<and> microsecond d < 1000000)"

definition days_before_year :: "nat \<Rightarrow> int" where
  "days_before_year y =
     (let z = int y - 1 in z * 365 + z div 4 - z div 100 + z div 400)"

definition days_before_month :: "nat \<Rightarrow> nat \<Rightarrow> int" where
  "days_before_month y m =
     int (sum_list (map (days_in_month y) [1..<m]))"

definition toordinal :: "datetime \<Rightarrow> int" where
  "toordinal d = days_before_year (year d) + days_before_month (year d) (month d) + int (day d)"

text \<open>Microseconds since the start of day 0 of the proleptic calendar, in local time.\<close>

definition local_micros :: "datetime \<Rightarrow> int" where
  "local_micros d =
     ((toordinal d * 86400 + int (second d + minute d * 60 + hour d * 3600)) * 1000000
       + int (microsecond d))"

definition dt_tuple :: "datetime \<Rightarrow> nat list" where
  "dt_tuple d = [year d, month d, day d, hour d, minute d, second d, microsecond d]"

text \<open>
  \<^verbatim>\<open>datetime._cmp\<close>: values with the same offset (both naive included) are compared
  field by field; a naive and an aware value cannot be ordered (\<^verbatim>\<open>TypeError\<close>);
  aware values with different offsets are compared as instants. The result is the sign.
\<close>

definition sign_of :: "bool \<Rightarrow> bool \<Rightarrow> int" where
  "sign_of lt eq = (if lt then - 1 else if eq then 0 else 1)"

definition dt_cmp :: "datetime \<Rightarrow> datetime \<Rightarrow> py_exn + int" where
  "dt_cmp a b =
     (if utcoffset a = utcoffset b
      then Inr (sign_of (dt_tuple a < dt_tuple b) (dt_tuple a = dt_tuple b))
      else (case (utcoffset a, utcoffset b) of
              (Some x, Some y) \<Rightarrow>
                Inr (sign_of (local_micros a - x < local_micros b - y)
                             (local_micros a - x = local_micros b - y))
            | _ \<Rightarrow> Inl TypeError))"

text \<open>\<^verbatim>\<open>a <= b\<close> on datetimes.\<close>

definition dt_le :: "datetime \<Rightarrow> datetime \<Rightarrow> py_exn + bool" where
  "dt_le a b = (case dt_cmp a b of Inl e \<Rightarrow> Inl e | Inr c \<Rightarrow> Inr (c \<le> 0))"

subsection \<open>Collaborators\<close>

text \<open>
  The statements the handlers send to the store. The store may refuse any of them (a
  locked or full database, a lost connection), each one independently of the others, and
  the statement then raises \<^verbatim>\<open>OperationalError\<close>. Of the reads, the model keeps the
  two that \<^verbatim>\<open>login\<close> sends inside its \<^verbatim>\<open>try\<close> block, where a failure has an answer
  of its own; the reads of the other handlers stand outside any \<^verbatim>\<open>try\<close> block and
  before every write, and are taken to succeed.
\<close>

datatype stmt =
    Select_user | Select_doctor
  | Insert_user | Insert_patient | Insert_appointment | Insert_treatment
  | Update_appointment | Commit

text \<open>
  What the handlers call and the repository does not define: the two parsers of the
  standard library, whether the C library pads the year of \<^verbatim>\<open>%Y\<close> with zeros (CPython
  3.11 on glibc does not), the hashing primitives behind \<^verbatim>\<open>set_password\<close> and
  \<^verbatim>\<open>check_password\<close> (both may raise), the form library's \<^verbatim>\<open>Email()\<close> validator,
  what the form library gives as the data of a text field that the request does not
  carry (\<open>None\<close> from WTForms 3.0 on, the empty string before), the clock, and the
  statements the store accepts.
\<close>

record world =
  fromisoformat :: "string \<Rightarrow> py_exn + datetime"
  strptime :: "string \<Rightarrow> string \<Rightarrow> py_exn + datetime"
  zero_pad_year :: bool
  generate_password_hash :: "string \<Rightarrow> py_exn + string"
  check_password_hash :: "string \<Rightarrow> string \<Rightarrow> py_exn + bool"
  email_validator :: "string \<Rightarrow> bool"
  unset_text :: "string option"
  utcnow :: datetime
  accepts :: "stmt \<Rightarrow> bool"

text \<open>The store accepts every write.\<close>

definition store_ok :: "world \<Rightarrow> bool" where
  "store_ok E =
     list_all (accepts E)
       [Insert_user, Insert_patient, Insert_appointment, Insert_treatment, Update_appointment,
        Commit]"

text \<open>
  \<^verbatim>\<open>dt.strftime('%Y-%m-%d %H:%M:%S')\<close>, the one format the handlers use. The month and
  the fields after it have two digits; the year has four digits from the year 1000 on,
  and below that as many as the C library gives it. The microsecond and the offset are not
  rendered.
\<close>

definition strftime :: "world \<Rightarrow> datetime \<Rightarrow> string" where
  "strftime E d =
     (if zero_pad_year E then pad0 4 (year d) else dec (year d)) @ ''-'' @
     pad0 2 (month d) @ ''-'' @ pad0 2 (day d) @ '' '' @
     pad0 2 (hour d) @ '':'' @ pad0 2 (minute d) @ '':'' @ pad0 2 (second d)"

subsection \<open>\<^verbatim>\<open>parse_datetime\<close> (routes.py, lines 49 to 61)\<close>

text \<open>
  The inner \<^verbatim>\<open>except ValueError: continue\<close> moves on to the next format, any other
  exception reaches the outer \<^verbatim>\<open>except Exception: return None\<close>. The result type
  keeps the exception channel, so that "never raises" is a theorem and not a convention.
\<close>

definition parse_datetime :: "world \<Rightarrow> string \<Rightarrow> py_exn + datetime option" where
  "parse_datetime E dt_str =
     (case (if CHR ''T'' \<in> set dt_str
            then (case fromisoformat E dt_str of
                    Inl e \<Rightarrow> Inl e
                  | Inr d \<Rightarrow> Inr (Some d))
            else (case strptime E dt_str ''%Y-%m-%d %H:%M:%S'' of
                    Inr d \<Rightarrow> Inr (Some d)
                  | Inl ValueError \<Rightarrow>
                      (case strptime E dt_str ''%Y-%m-%d %H:%M'' of
                         Inr d \<Rightarrow> Inr (Some d)
                       | Inl ValueError \<Rightarrow> Inr None
                       | Inl e \<Rightarrow> Inl e)
                  | Inl e \<Rightarrow> Inl e))
      of Inl e \<Rightarrow> Inr None
       | Inr r \<Rightarrow> Inr r)"

subsection \<open>Tables (models.py)\<close>

text \<open>Nullable columns are options; primary keys are positive row ids.\<close>

record user =
  u_id :: nat
  u_username :: string
  u_email :: string
  u_password_hash :: string
  u_full_name :: "string option"
  u_role :: string

record department =
  dep_id :: nat
  dep_name :: string

record doctor =
  d_id :: nat
  d_user_id :: nat
  d_department_id :: "nat option"
  d_specialization :: "string option"
  d_contact :: "string option"
  d_is_active :: "bool option"
  d_is_approved :: "bool option"

record patient =
  p_id :: nat
  p_user_id :: nat
  p_dob :: "string option"
  p_gender :: "string option"
  p_contact :: "string option"

record appointment =
  a_id :: nat
  a_patient_id :: "nat option"
  a_doctor_id :: "nat option"
  a_start_datetime :: string
  a_end_datetime :: string
  a_reason :: "string option"
  a_status :: "string option"

record treatment =
  t_id :: nat
  t_appointment_id :: "nat option"
  t_diagnosis :: "string option"
  t_prescription :: "string option"
  t_date_created :: "datetime option"

record database =
  users :: "user list"
  departments :: "department list"
  doctors :: "doctor list"
  patients :: "patient list"
  appointments :: "appointment list"
  treatments :: "treatment list"

text \<open>The row id of an insert: one more than the largest in the table, 1 when empty.\<close>

definition next_id :: "nat list \<Rightarrow> nat" where
  "next_id ids = Suc (fold max ids 0)"

subsection \<open>The session and its transaction\<close>

text \<open>
  \<^verbatim>\<open>db.session\<close> within one request. \<open>committed\<close> is what the database file holds,
  \<open>pending\<close> is what the open transaction sees: a flushed statement changes \<open>pending\<close>
  only, \<^verbatim>\<open>commit()\<close> makes \<open>pending\<close> the committed state, \<^verbatim>\<open>rollback()\<close> and the
  removal of the session at the end of the request drop what is pending. What a request
  leaves behind is the committed state.

  A statement that raises carries the session as it was when it was sent.
\<close>

record session =
  committed :: database
  pending :: database

definition session_of :: "database \<Rightarrow> session" where
  "session_of db = \<lparr>committed = db, pending = db\<rparr>"

definition rollback :: "session \<Rightarrow> session" where
  "rollback s = s\<lparr>pending := committed s\<rparr>"

definition commit :: "world \<Rightarrow> session \<Rightarrow> py_exn \<times> session + session" where
  "commit E s =
     (if accepts E Commit then Inr (s\<lparr>committed := pending s\<rparr>) else Inl (OperationalError, s))"

text \<open>
  Inserts, as the flush sends them: the store must accept the statement, and the unique
  constraints of the table must hold (\<^verbatim>\<open>users.username\<close>, \<^verbatim>\<open>users.email\<close>,
  \<^verbatim>\<open>patients.user_id\<close>).
\<close>

definition insert_user :: "world \<Rightarrow> session \<Rightarrow> user \<Rightarrow> py_exn \<times> session + user \<times> session" where
  "insert_user E s u =
     (if \<not> accepts E Insert_user then Inl (OperationalError, s)
      else if list_ex (\<lambda>v. u_username v = u_username u \<or> u_email v = u_email u)
                (users (pending s))
      then Inl (IntegrityError, s)
      else (let u' = u\<lparr>u_id := next_id (map u_id (users (pending s)))\<rparr>
            in Inr (u', s\<lparr>pending := (pending s)\<lparr>users := users (pending s) @ [u']\<rparr>\<rparr>)))"

definition insert_patient ::
    "world \<Rightarrow> session \<Rightarrow> patient \<Rightarrow> py_exn \<times> session + patient \<times> session" where
  "insert_patient E s p =
     (if \<not> accepts E Insert_patient then Inl (OperationalError, s)
      else if list_ex (\<lambda>q. p_user_id q = p_user_id p) (patients (pending s))
      then Inl (IntegrityError, s)
      else (let p' = p\<lparr>p_id := next_id (map p_id (patients (pending s)))\<rparr>
            in Inr (p', s\<lparr>pending := (pending s)\<lparr>patients := patients (pending s) @ [p']\<rparr>\<rparr>)))"

definition insert_appointment ::
    "world \<Rightarrow> session \<Rightarrow> appointment \<Rightarrow> py_exn \<times> session + appointment \<times> session" where
  "insert_appointment E s a =
     (if \<not> accepts E Insert_appointment then Inl (OperationalError, s)
      else (let a' = a\<lparr>a_id := next_id (map a_id (appointments (pending s)))\<rparr>
            in Inr (a', s\<lparr>pending :=
                            (pending s)\<lparr>appointments := appointments (pending s) @ [a']\<rparr>\<rparr>)))"

definition insert_treatment ::
    "world \<Rightarrow> session \<Rightarrow> treatment \<Rightarrow> py_exn \<times> session + treatment \<times> session" where
  "insert_treatment E s t =
     (if \<not> accepts E Insert_treatment then Inl (OperationalError, s)
      else (let t' = t\<lparr>t_id := next_id (map t_id (treatments (pending s)))\<rparr>
            in Inr (t', s\<lparr>pending :=
                            (pending s)\<lparr>treatments := treatments (pending s) @ [t']\<rparr>\<rparr>)))"

text \<open>
  \<^verbatim>\<open>appt.status = ...\<close>, as the flush sends it: the UPDATE of the row with that
  primary key; the unit of work sends no statement for an attribute that keeps its value.
\<close>

definition update_status ::
    "world \<Rightarrow> session \<Rightarrow> appointment \<Rightarrow> string \<Rightarrow> py_exn \<times> session + session" where
  "update_status E s appt v =
     (if a_status appt = Some v then Inr s
      else if \<not> accepts E Update_appointment then Inl (OperationalError, s)
      else Inr (s\<lparr>pending :=
                   (pending s)\<lparr>appointments :=
                      map (\<lambda>a. if a_id a = a_id appt then a\<lparr>a_status := Some v\<rparr> else a)
                        (appointments (pending s))\<rparr>\<rparr>))"

text \<open>The relationships \<^verbatim>\<open>user.doctor_profile\<close> and \<^verbatim>\<open>user.patient_profile\<close>.\<close>

definition doctor_profile :: "database \<Rightarrow> user \<Rightarrow> doctor option" where
  "doctor_profile db u = find (\<lambda>d. d_user_id d = u_id u) (doctors db)"

definition patient_profile :: "database \<Rightarrow> user \<Rightarrow> patient option" where
  "patient_profile db u = find (\<lambda>p. p_user_id p = u_id u) (patients db)"

subsection \<open>Requests, forms and outcomes\<close>

datatype http_method = GET | POST

record request =
  rq_method :: http_method
  rq_csrf_ok :: bool
  rq_form :: "string \<rightharpoonup> string"

datatype response =
    Render string
  | Redirect string "nat option"
  | Abort nat
  | ServerError py_exn

text \<open>
  What a request leaves behind: the response, the flashed messages (text, category), the
  committed state of the store, and the identity \<^verbatim>\<open>login_user\<close> was called with.
  An exception no handler catches is the response \<open>ServerError\<close> (status 500).
\<close>

record outcome =
  response :: response
  flashes :: "(string \<times> string) list"
  store :: database
  logged_in :: "nat option"

definition reply :: "response \<Rightarrow> (string \<times> string) list \<Rightarrow> database \<Rightarrow> outcome" where
  "reply r fl db = \<lparr>response = r, flashes = fl, store = db, logged_in = None\<rparr>"

text \<open>
  An exception that leaves the handler: the session is removed with the request, what was
  pending is dropped and what was committed stays.
\<close>

definition server_error :: "py_exn \<Rightarrow> session \<Rightarrow> outcome" where
  "server_error e s = reply (ServerError e) [] (committed s)"

text \<open>\<^verbatim>\<open>DataRequired()\<close>: the field is present and not blank.\<close>

definition data_required :: "string option \<Rightarrow> bool" where
  "data_required v = (case v of None \<Rightarrow> False | Some s \<Rightarrow> s \<noteq> [] \<and> strip s \<noteq> [])"

text \<open>\<^verbatim>\<open>form.<field>.data\<close> of a field that passed \<^verbatim>\<open>DataRequired()\<close>.\<close>

definition field_data :: "request \<Rightarrow> string \<Rightarrow> string" where
  "field_data req name = (case rq_form req name of None \<Rightarrow> [] | Some s \<Rightarrow> s)"

text \<open>\<^verbatim>\<open>form.<field>.data\<close> of a text field under \<^verbatim>\<open>Optional()\<close>.\<close>

definition text_data :: "world \<Rightarrow> request \<Rightarrow> string \<Rightarrow> string option" where
  "text_data E req name = (case rq_form req name of None \<Rightarrow> unset_text E | Some s \<Rightarrow> Some s)"

text \<open>\<^verbatim>\<open>form.validate_on_submit()\<close> for the three forms (routes.py, lines 15 to 43).\<close>

definition LoginForm_ok :: "request \<Rightarrow> bool" where
  "LoginForm_ok req =
     (rq_method req = POST \<and> rq_csrf_ok req \<and>
      data_required (rq_form req ''username'') \<and> data_required (rq_form req ''password''))"

definition RegisterForm_ok :: "world \<Rightarrow> request \<Rightarrow> bool" where
  "RegisterForm_ok E req =
     (rq_method req = POST \<and> rq_csrf_ok req \<and>
      data_required (rq_form req ''full_name'') \<and> data_required (rq_form req ''username'') \<and>
      data_required (rq_form req ''email'') \<and> email_validator E (field_data req ''email'') \<and>
      data_required (rq_form req ''password''))"

definition BookAppointmentForm_ok :: "request \<Rightarrow> bool" where
  "BookAppointmentForm_ok req =
     (rq_method req = POST \<and> rq_csrf_ok req \<and>
      data_required (rq_form req ''start_datetime'') \<and>
      data_required (rq_form req ''end_datetime''))"

text \<open>
  \<^verbatim>\<open>current_user\<close>: the identity the session names, loaded by \<^verbatim>\<open>load_user\<close>;
  \<^verbatim>\<open>@login_required\<close> turns an anonymous caller away.
\<close>

definition current_user :: "database \<Rightarrow> nat option \<Rightarrow> user option" where
  "current_user db uid =
     (case uid of None \<Rightarrow> None | Some i \<Rightarrow> find (\<lambda>u. u_id u = i) (users db))"

definition unauthorized :: "database \<Rightarrow> outcome" where
  "unauthorized db =
     reply (Redirect ''main.login'' None) [(''Please log in to access this page.'', ''message'')] db"

text \<open>Truthiness of a nullable Boolean column: \<^verbatim>\<open>not None\<close> is \<^verbatim>\<open>True\<close>.\<close>

definition truthy :: "bool option \<Rightarrow> bool" where
  "truthy b = (b = Some True)"

subsection \<open>\<^verbatim>\<open>login\<close> (routes.py, lines 74 to 120)\<close>

text \<open>
  The query of lines 82 to 84 has no \<^verbatim>\<open>ORDER BY\<close>. SQLite answers the disjunction from
  the two unique indexes, the one on \<^verbatim>\<open>username\<close> first: the row whose username is the
  identifier comes before the row whose e-mail is.
\<close>

definition user_by_login :: "database \<Rightarrow> string \<Rightarrow> user option" where
  "user_by_login db s =
     (case find (\<lambda>u. u_username u = s) (users db) of
        Some u \<Rightarrow> Some u
      | None \<Rightarrow> find (\<lambda>u. u_email u = s) (users db))"

text \<open>Lines 103 to 113: the session is bound to the identity, the landing view follows the role.\<close>

definition login_success :: "database \<Rightarrow> user \<Rightarrow> outcome" where
  "login_success db user =
     \<lparr>response =
        (if u_role user = ''admin'' then Redirect ''main.admin_dashboard'' None
         else if u_role user = ''doctor'' then Redirect ''main.doctor_dashboard'' None
         else if u_role user = ''patient'' then Redirect ''main.patient_dashboard'' None
         else Redirect ''main.index'' None),
      flashes = [(''Logged in successfully.'', ''success'')],
      store = db,
      logged_in = Some (u_id user)\<rparr>"

text \<open>
  The body of the \<^verbatim>\<open>try\<close> block, lines 82 to 113. What can raise there: the query, the
  credential check, and the lazy load of \<^verbatim>\<open>user.doctor_profile\<close>.
\<close>

definition login_try :: "world \<Rightarrow> database \<Rightarrow> string \<Rightarrow> string \<Rightarrow> py_exn + outcome" where
  "login_try E db username password =
     (if \<not> accepts E Select_user then Inl OperationalError
      else
        (case user_by_login db username of
           None \<Rightarrow>
             Inr (reply (Render ''login.html'') [(''Invalid username or password.'', ''danger'')] db)
         | Some user \<Rightarrow>
             (case check_password_hash E (u_password_hash user) password of
                Inl e \<Rightarrow> Inl e
              | Inr ok \<Rightarrow>
                  if \<not> ok
                  then Inr (reply (Render ''login.html'')
                              [(''Invalid username or password.'', ''danger'')] db)
                  else if u_role user = ''doctor'' then
                    (if \<not> accepts E Select_doctor then Inl OperationalError
                     else
                       (case doctor_profile db user of
                          None \<Rightarrow>
                            Inr (reply (Render ''login.html'')
                                   [(''Doctor profile not found. Contact admin.'', ''danger'')] db)
                        | Some doc \<Rightarrow>
                            if \<not> truthy (d_is_approved doc)
                            then Inr (reply (Render ''login.html'')
                                        [(''Your account is pending admin approval.'',
                                          ''warning'')] db)
                            else if \<not> truthy (d_is_active doc)
                            then Inr (reply (Render ''login.html'')
                                        [(''Your account has been deactivated. Contact admin.'',
                                          ''danger'')] db)
                            else Inr (login_success db user)))
                  else Inr (login_success db user))))"

text \<open>
  The handler: the \<^verbatim>\<open>except Exception\<close> of lines 115 to 118 flashes its own message,
  rolls back (nothing is pending) and falls through to the rendering of line 120.
\<close>

definition login :: "world \<Rightarrow> database \<Rightarrow> request \<Rightarrow> outcome" where
  "login E db req =
     (if LoginForm_ok req then
        (case login_try E db (strip (field_data req ''username'')) (field_data req ''password'') of
           Inr out \<Rightarrow> out
         | Inl e \<Rightarrow>
             reply (Render ''login.html'')
               [(''An unexpected error occurred. Please try again.'', ''danger'')]
               (committed (rollback (session_of db))))
      else reply (Render ''login.html'') [] db)"

subsection \<open>\<^verbatim>\<open>register\<close> (routes.py, lines 132 to 164)\<close>

text \<open>
  The \<^verbatim>\<open>try\<close> block of lines 148 to 158: the credential is hashed, the identity is
  flushed, which assigns its id, then the profile is added and both are committed.
\<close>

definition register_try ::
    "world \<Rightarrow> session \<Rightarrow> string \<Rightarrow> string \<Rightarrow> string \<Rightarrow> string \<Rightarrow> py_exn \<times> session + session" where
  "register_try E s username email full_name password =
     (case generate_password_hash E password of
        Inl e \<Rightarrow> Inl (e, s)
      | Inr h \<Rightarrow>
          (case insert_user E s
                  \<lparr>u_id = 0, u_username = username, u_email = email, u_password_hash = h,
                   u_full_name = Some full_name, u_role = ''patient''\<rparr> of
             Inl x \<Rightarrow> Inl x
           | Inr (user, s1) \<Rightarrow>
               (case insert_patient E s1
                       \<lparr>p_id = 0, p_user_id = u_id user, p_dob = None, p_gender = None,
                        p_contact = None\<rparr> of
                  Inl x \<Rightarrow> Inl x
                | Inr (patient, s2) \<Rightarrow> commit E s2)))"

definition register :: "world \<Rightarrow> database \<Rightarrow> request \<Rightarrow> outcome" where
  "register E db req =
     (if RegisterForm_ok E req then
        (let username = strip (field_data req ''username'');
             email = strip (field_data req ''email'');
             password = field_data req ''password'';
             full_name = strip (field_data req ''full_name'')
         in if find (\<lambda>u. u_username u = username \<or> u_email u = email) (users db) \<noteq> None
            then reply (Render ''register.html'')
                   [(''Username or email already exists.'', ''danger'')] db
            else (case register_try E (session_of db) username email full_name password of
                    Inr s \<Rightarrow>
                      reply (Redirect ''main.login'' None)
                        [(''Registration successful! Please log in.'', ''success'')]
                        (committed s)
                  | Inl (e, s) \<Rightarrow>
                      reply (Render ''register.html'')
                        [(''An error occurred while registering. Try again.'', ''danger'')]
                        (committed (rollback s))))
      else reply (Render ''register.html'') [] db)"

subsection \<open>\<^verbatim>\<open>book_appointment\<close> (routes.py, lines 262 to 308)\<close>

text \<open>
  The filter of the conflict query (lines 286 to 290), on the stored strings: SQLite
  compares text code point by code point.
\<close>

definition conflict_filter :: "nat \<Rightarrow> string \<Rightarrow> string \<Rightarrow> appointment \<Rightarrow> bool" where
  "conflict_filter doctor_id start_str end_str x =
     (a_doctor_id x = Some doctor_id \<and> a_status x = Some ''Booked'' \<and>
      \<not> (a_end_datetime x \<le> start_str \<or> a_start_datetime x \<ge> end_str))"

text \<open>Lines 296 to 306: the row is added and committed.\<close>

definition book_insert ::
    "world \<Rightarrow> database \<Rightarrow> patient \<Rightarrow> doctor \<Rightarrow> string \<Rightarrow> string \<Rightarrow> string option \<Rightarrow> outcome" where
  "book_insert E db patient doctor start_str end_str reason =
     (case insert_appointment E (session_of db)
             \<lparr>a_id = 0, a_patient_id = Some (p_id patient), a_doctor_id = Some (d_id doctor),
              a_start_datetime = start_str, a_end_datetime = end_str, a_reason = reason,
              a_status = Some ''Booked''\<rparr> of
        Inl (e, s) \<Rightarrow> server_error e s
      | Inr (appointment, s1) \<Rightarrow>
          (case commit E s1 of
             Inl (e, s) \<Rightarrow> server_error e s
           | Inr s2 \<Rightarrow>
               reply (Redirect ''main.patient_dashboard'' None)
                 [(''Appointment booked successfully.'', ''success'')] (committed s2)))"

definition book_appointment ::
    "world \<Rightarrow> database \<Rightarrow> nat option \<Rightarrow> nat \<Rightarrow> request \<Rightarrow> outcome" where
  "book_appointment E db uid doctor_id req =
     (case current_user db uid of
        None \<Rightarrow> unauthorized db
      | Some cu \<Rightarrow>
          if u_role cu \<noteq> ''patient''
          then reply (Redirect ''main.index'' None) [(''Access denied.'', ''danger'')] db
          else
            (case find (\<lambda>d. d_id d = doctor_id) (doctors db) of
               None \<Rightarrow> reply (Abort 404) [] db
             | Some doctor \<Rightarrow>
                 if BookAppointmentForm_ok req then
                   (case parse_datetime E (field_data req ''start_datetime'') of
                      Inl e \<Rightarrow> reply (ServerError e) [] db
                    | Inr start_dt \<Rightarrow>
                   (case parse_datetime E (field_data req ''end_datetime'') of
                      Inl e \<Rightarrow> reply (ServerError e) [] db
                    | Inr end_dt \<Rightarrow>
                   (case (start_dt, end_dt) of
                      (Some start_dt, Some end_dt) \<Rightarrow>
                        (case dt_le end_dt start_dt of
                           Inl e \<Rightarrow> reply (ServerError e) [] db
                         | Inr True \<Rightarrow>
                             reply (Redirect ''main.book_appointment'' (Some (d_id doctor)))
                               [(''Invalid time range.'', ''danger'')] db
                         | Inr False \<Rightarrow>
                             (let start_str = strftime E start_dt;
                                  end_str = strftime E end_dt
                              in case find (conflict_filter (d_id doctor) start_str end_str)
                                        (appointments db) of
                                   Some conflict \<Rightarrow>
                                     reply (Redirect ''main.book_appointment''
                                              (Some (d_id doctor)))
                                       [(''That slot is already booked.'', ''danger'')] db
                                 | None \<Rightarrow>
                                     (case patient_profile db cu of
                                        None \<Rightarrow> reply (ServerError AttributeError) [] db
                                      | Some patient \<Rightarrow>
                                          book_insert E db patient doctor start_str end_str
                                            (text_data E req ''reason''))))
                    | _ \<Rightarrow>
                        reply (Redirect ''main.book_appointment'' (Some (d_id doctor)))
                          [(''Invalid time range.'', ''danger'')] db)))
                 else reply (Render ''book_appointment.html'') [] db))"

subsection \<open>\<^verbatim>\<open>complete_appointment\<close> (routes.py, lines 325 to 346)\<close>

text \<open>
  Lines 338 to 344. The assignment and the \<^verbatim>\<open>add\<close> change the session only;
  \<^verbatim>\<open>commit()\<close> flushes the UPDATE and the INSERT into the open transaction and then
  commits it.
\<close>

definition complete_writes :: "world \<Rightarrow> database \<Rightarrow> appointment \<Rightarrow> request \<Rightarrow> outcome" where
  "complete_writes E db appt req =
     (case update_status E (session_of db) appt ''Completed'' of
        Inl (e, s) \<Rightarrow> server_error e s
      | Inr s1 \<Rightarrow>
          (case insert_treatment E s1
                  \<lparr>t_id = 0, t_appointment_id = Some (a_id appt),
                   t_diagnosis = rq_form req ''diagnosis'',
                   t_prescription = rq_form req ''prescription'',
                   t_date_created = Some (utcnow E)\<rparr> of
             Inl (e, s) \<Rightarrow> server_error e s
           | Inr (t, s2) \<Rightarrow>
               (case commit E s2 of
                  Inl (e, s) \<Rightarrow> server_error e s
                | Inr s3 \<Rightarrow>
                    reply (Redirect ''main.doctor_dashboard'' None)
                      [(''Appointment completed and treatment saved.'', ''success'')]
                      (committed s3))))"

definition complete_appointment ::
    "world \<Rightarrow> database \<Rightarrow> nat option \<Rightarrow> nat \<Rightarrow> request \<Rightarrow> outcome" where
  "complete_appointment E db uid appointment_id req =
     (case current_user db uid of
        None \<Rightarrow> unauthorized db
      | Some cu \<Rightarrow>
          if u_role cu \<noteq> ''doctor''
          then reply (Redirect ''main.index'' None) [(''Access denied.'', ''danger'')] db
          else
            (case find (\<lambda>a. a_id a = appointment_id) (appointments db) of
               None \<Rightarrow> reply (Abort 404) [] db
             | Some appt \<Rightarrow>
                 (case doctor_profile db cu of
                    None \<Rightarrow> reply (ServerError AttributeError) [] db
                  | Some doc \<Rightarrow>
                      if a_doctor_id appt \<noteq> Some (d_id doc)
                      then reply (Redirect ''main.doctor_dashboard'' None)
                             [(''You are not authorized to modify this appointment.'',
                               ''danger'')] db
                      else if rq_method req = POST then complete_writes E db appt req
                      else reply (Render ''complete_appointment.html'') [] db)))"

subsection \<open>Reference collaborators\<close>

text \<open>
  A world for running the handlers on concrete requests. Its parsers accept the zero
  padded spellings listed below, with the values CPython gives them, and raise
  \<^verbatim>\<open>ValueError\<close> on every other string (CPython accepts further spellings). A
  pattern is matched position by position, \<open>#\<close> standing for a decimal digit.
\<close>

definition isdigit :: "char \<Rightarrow> bool" where
  "isdigit c = (let n = (of_char c :: nat) in 48 \<le> n \<and> n \<le> 57)"

definition matches :: "string \<Rightarrow> string \<Rightarrow> bool" where
  "matches pat s =
     (length pat = length s \<and>
      list_all2 (\<lambda>p c. if p = CHR ''#'' then isdigit c else p = c) pat s)"

definition num_at :: "string \<Rightarrow> nat \<Rightarrow> nat \<Rightarrow> nat" where
  "num_at s i n = foldl (\<lambda>acc c. acc * 10 + (of_char c - 48)) 0 (take n (drop i s))"

definition checked :: "datetime \<Rightarrow> py_exn + datetime" where
  "checked d = (if valid_datetime d then Inr d else Inl ValueError)"

definition ref_fields :: "string \<Rightarrow> nat \<Rightarrow> nat \<Rightarrow> int option \<Rightarrow> datetime" where
  "ref_fields s sec us off =
     \<lparr>year = num_at s 0 4, month = num_at s 5 2, day = num_at s 8 2,
      hour = num_at s 11 2, minute = num_at s 14 2, second = sec, microsecond = us,
      utcoffset = off\<rparr>"

definition ref_strptime :: "string \<Rightarrow> string \<Rightarrow> py_exn + datetime" where
  "ref_strptime s fmt =
     (if fmt = ''%Y-%m-%d %H:%M:%S'' \<and> matches ''####-##-## ##:##:##'' s
      then checked (ref_fields s (num_at s 17 2) 0 None)
      else if fmt = ''%Y-%m-%d %H:%M'' \<and> matches ''####-##-## ##:##'' s
      then checked (ref_fields s 0 0 None)
      else Inl ValueError)"

definition ref_offset :: "string \<Rightarrow> nat \<Rightarrow> int option" where
  "ref_offset s i =
     Some ((if s ! i = CHR ''-'' then - 1 else 1) *
           (int (num_at s (i + 1) 2) * 3600 + int (num_at s (i + 4) 2) * 60) * 1000000)"

definition ref_fromisoformat :: "string \<Rightarrow> py_exn + datetime" where
  "ref_fromisoformat s =
     (if matches ''####-##-##T##:##'' s then checked (ref_fields s 0 0 None)
      else if matches ''####-##-##T##:##:##'' s
      then checked (ref_fields s (num_at s 17 2) 0 None)
      else if matches ''####-##-##T##:##:##.######'' s
      then checked (ref_fields s (num_at s 17 2) (num_at s 20 6) None)
      else if (matches ''####-##-##T##:##:##+##:##'' s \<or> matches ''####-##-##T##:##:##-##:##'' s)
              \<and> num_at s 20 2 < 24 \<and> num_at s 23 2 < 60
      then checked (ref_fields s (num_at s 17 2) 0 (ref_offset s 19))
      else Inl ValueError)"

definition ref_world :: world where
  "ref_world =
     \<lparr>fromisoformat = ref_fromisoformat,
      strptime = ref_strptime,
      zero_pad_year = False,
      generate_password_hash = (\<lambda>p. Inr (''sha$'' @ rev p)),
      check_password_hash = (\<lambda>h p. Inr (h = ''sha$'' @ rev p)),
      email_validator = (\<lambda>s. CHR ''@'' \<in> set s),
      unset_text = None,
      utcnow = \<lparr>year = 2024, month = 1, day = 10, hour = 12, minute = 0, second = 0,
                microsecond = 0, utcoffset = None\<rparr>,
      accepts = (\<lambda>s. True)\<rparr>"

subsection \<open>Notions of the specification\<close>

text \<open>
  The specification speaks of instants and of half-open intervals. \<open>before a b\<close> is
  \<^verbatim>\<open>a < b\<close> evaluating to true, \<open>overlaps\<close> is the overlap test of the specification,
  word for word: \<open>[a, b)\<close> and \<open>[c, d)\<close> overlap iff \<open>a < d\<close> and \<open>c < b\<close>.
\<close>

definition before :: "datetime \<Rightarrow> datetime \<Rightarrow> bool" where
  "before a b = (dt_cmp a b = Inr (- 1))"

definition overlaps :: "datetime \<Rightarrow> datetime \<Rightarrow> datetime \<Rightarrow> datetime \<Rightarrow> bool" where
  "overlaps a b c d = (before a d \<and> before c b)"

text \<open>
  What the rendering keeps of a datetime: the wall-clock time to the second. The
  microsecond and the offset are dropped.
\<close>

definition whole_second :: "datetime \<Rightarrow> datetime" where
  "whole_second d = d\<lparr>microsecond := 0, utcoffset := None\<rparr>"

definition wall_seconds :: "datetime \<Rightarrow> nat list" where
  "wall_seconds d = [year d, month d, day d, hour d, minute d, second d]"

text \<open>An appointment that counts in the conflict check of a doctor.\<close>

definition booked_for :: "nat \<Rightarrow> appointment \<Rightarrow> bool" where
  "booked_for doctor_id x = (a_doctor_id x = Some doctor_id \<and> a_status x = Some ''Booked'')"

text \<open>A datetime whose rendering has a year of four digits on every C library.\<close>

definition four_digit_year :: "datetime \<Rightarrow> bool" where
  "four_digit_year d = (valid_datetime d \<and> 1000 \<le> year d)"

text \<open>
  The invariant on a stored row: its two strings are the renderings of the naive
  whole-second instants \<open>c\<close> and \<open>d\<close>, of a year from 1000 on.
\<close>

definition rendered_from :: "world \<Rightarrow> appointment \<Rightarrow> datetime \<times> datetime \<Rightarrow> bool" where
  "rendered_from E x cd =
     (four_digit_year (fst cd) \<and> four_digit_year (snd cd) \<and>
      whole_second (fst cd) = fst cd \<and> whole_second (snd cd) = snd cd \<and>
      a_start_datetime x = strftime E (fst cd) \<and> a_end_datetime x = strftime E (snd cd))"

text \<open>
  A string no format accepts: \<^verbatim>\<open>fromisoformat\<close> raises on a string with a \<open>T\<close>, both
  \<^verbatim>\<open>strptime\<close> patterns raise on a string without.
\<close>

definition unparsable :: "world \<Rightarrow> string \<Rightarrow> bool" where
  "unparsable E s =
     (if CHR ''T'' \<in> set s then isl (fromisoformat E s)
      else isl (strptime E s ''%Y-%m-%d %H:%M:%S'') \<and> isl (strptime E s ''%Y-%m-%d %H:%M''))"

subsection \<open>A sample store and sample requests\<close>

text \<open>
  One patient (alice), three doctors (drbob, dreve and the unapproved drnew), a booked
  appointment with drbob on 2024-01-10 from 09:00 to 09:30, and a completed appointment
  with dreve that already has its treatment.
\<close>

definition mk_datetime :: "nat \<Rightarrow> nat \<Rightarrow> nat \<Rightarrow> nat \<Rightarrow> nat \<Rightarrow> nat \<Rightarrow> nat \<Rightarrow> datetime" where
  "mk_datetime y mo d h mi s us =
     \<lparr>year = y, month = mo, day = d, hour = h, minute = mi, second = s, microsecond = us,
      utcoffset = None\<rparr>"

definition sample_appointment :: appointment where
  "sample_appointment =
     \<lparr>a_id = 1, a_patient_id = Some 1, a_doctor_id = Some 1,
      a_start_datetime = ''2024-01-10 09:00:00'', a_end_datetime = ''2024-01-10 09:30:00'',
      a_reason = Some ''checkup'', a_status = Some ''Booked''\<rparr>"

definition sample_completed :: appointment where
  "sample_completed =
     \<lparr>a_id = 2, a_patient_id = Some 1, a_doctor_id = Some 2,
      a_start_datetime = ''2024-01-11 10:00:00'', a_end_datetime = ''2024-01-11 10:30:00'',
      a_reason = None, a_status = Some ''Completed''\<rparr>"

definition sample_db :: database where
  "sample_db =
     \<lparr>users =
        [\<lparr>u_id = 1, u_username = ''alice'', u_email = ''alice@example.com'',
          u_password_hash = ''sha$1wp'', u_full_name = Some ''Alice'', u_role = ''patient''\<rparr>,
         \<lparr>u_id = 2, u_username = ''drbob'', u_email = ''bob@example.com'',
          u_password_hash = ''sha$2wp'', u_full_name = Some ''Bob'', u_role = ''doctor''\<rparr>,
         \<lparr>u_id = 3, u_username = ''dreve'', u_email = ''eve@example.com'',
          u_password_hash = ''sha$3wp'', u_full_name = Some ''Eve'', u_role = ''doctor''\<rparr>,
         \<lparr>u_id = 4, u_username = ''drnew'', u_email = ''new@example.com'',
          u_password_hash = ''sha$4wp'', u_full_name = Some ''New'', u_role = ''doctor''\<rparr>],
      departments = [\<lparr>dep_id = 1, dep_name = ''General''\<rparr>],
      doctors =
        [\<lparr>d_id = 1, d_user_id = 2, d_department_id = Some 1, d_specialization = None,
          d_contact = None, d_is_active = Some True, d_is_approved = Some True\<rparr>,
         \<lparr>d_id = 2, d_user_id = 3, d_department_id = None, d_specialization = None,
          d_contact = None, d_is_active = Some True, d_is_approved = Some True\<rparr>,
         \<lparr>d_id = 3, d_user_id = 4, d_department_id = None, d_specialization = None,
          d_contact = None, d_is_active = Some True, d_is_approved = Some False\<rparr>],
      patients =
        [\<lparr>p_id = 1, p_user_id = 1, p_dob = None, p_gender = None, p_contact = None\<rparr>],
      appointments = [sample_appointment, sample_completed],
      treatments =
        [\<lparr>t_id = 1, t_appointment_id = Some 2, t_diagnosis = Some ''flu'',
          t_prescription = Some ''rest'', t_date_created = None\<rparr>]\<rparr>"

text \<open>The instants each stored appointment of the sample store was rendered from.\<close>

definition sample_intervals :: "appointment \<Rightarrow> datetime \<times> datetime" where
  "sample_intervals x =
     (if a_id x = 1 then (mk_datetime 2024 1 10 9 0 0 0, mk_datetime 2024 1 10 9 30 0 0)
      else (mk_datetime 2024 1 11 10 0 0 0, mk_datetime 2024 1 11 10 30 0 0))"

definition post :: "(string \<times> string) list \<Rightarrow> request" where
  "post kvs = \<lparr>rq_method = POST, rq_csrf_ok = True, rq_form = map_of kvs\<rparr>"

definition login_unknown :: request where
  "login_unknown = post [(''username'', ''nobody''), (''password'', ''pw1'')]"

definition login_wrong_password :: request where
  "login_wrong_password =
     post [(''username'', CHR 0xA0 # '' alice ''), (''password'', ''wrong'')]"

text \<open>
  The administrator action the specification names and no route exposes: the approval flag
  of one doctor profile becomes true, nothing else changes.
\<close>

definition approve :: "database \<Rightarrow> nat \<Rightarrow> database" where
  "approve db i =
     db\<lparr>doctors := map (\<lambda>d. if d_id d = i then d\<lparr>d_is_approved := Some True\<rparr> else d)
                       (doctors db)\<rparr>"

definition login_drnew :: request where
  "login_drnew = post [(''username'', ''drnew''), (''password'', ''pw4'')]"

definition drnew_user :: user where
  "drnew_user =
     \<lparr>u_id = 4, u_username = ''drnew'', u_email = ''new@example.com'',
      u_password_hash = ''sha$4wp'', u_full_name = Some ''New'', u_role = ''doctor''\<rparr>"

definition drnew_profile :: doctor where
  "drnew_profile =
     \<lparr>d_id = 3, d_user_id = 4, d_department_id = None, d_specialization = None,
      d_contact = None, d_is_active = Some True, d_is_approved = Some False\<rparr>"

definition completion_form :: request where
  "completion_form = post [(''diagnosis'', ''cold''), (''prescription'', ''tea'')]"

definition drbob_user :: user where
  "drbob_user =
     \<lparr>u_id = 2, u_username = ''drbob'', u_email = ''bob@example.com'',
      u_password_hash = ''sha$2wp'', u_full_name = Some ''Bob'', u_role = ''doctor''\<rparr>"

definition drbob_profile :: doctor where
  "drbob_profile =
     \<lparr>d_id = 1, d_user_id = 2, d_department_id = Some 1, d_specialization = None,
      d_contact = None, d_is_active = Some True, d_is_approved = Some True\<rparr>"

definition dreve_user :: user where
  "dreve_user =
     \<lparr>u_id = 3, u_username = ''dreve'', u_email = ''eve@example.com'',
      u_password_hash = ''sha$3wp'', u_full_name = Some ''Eve'', u_role = ''doctor''\<rparr>"

definition dreve_profile :: doctor where
  "dreve_profile =
     \<lparr>d_id = 2, d_user_id = 3, d_department_id = None, d_specialization = None,
      d_contact = None, d_is_active = Some True, d_is_approved = Some True\<rparr>"

definition alice_user :: user where
  "alice_user =
     \<lparr>u_id = 1, u_username = ''alice'', u_email = ''alice@example.com'',
      u_password_hash = ''sha$1wp'', u_full_name = Some ''Alice'', u_role = ''patient''\<rparr>"

definition alice_profile :: patient where
  "alice_profile =
     \<lparr>p_id = 1, p_user_id = 1, p_dob = None, p_gender = None, p_contact = None\<rparr>"

text \<open>
  A store in which a later identity took the e-mail address of alice as its username, as
  \<^verbatim>\<open>register\<close> allows.
\<close>

definition shadow_user :: user where
  "shadow_user =
     \<lparr>u_id = 5, u_username = ''alice@example.com'', u_email = ''mallory@example.com'',
      u_password_hash = ''sha$5wp'', u_full_name = Some ''Mallory'', u_role = ''patient''\<rparr>"

definition shadow_db :: database where
  "shadow_db = sample_db\<lparr>users := users sample_db @ [shadow_user]\<rparr>"

definition login_shadow :: request where
  "login_shadow = post [(''username'', ''alice@example.com''), (''password'', ''pw5'')]"

text \<open>The reference world with a store that refuses one statement.\<close>

definition refusing :: "stmt \<Rightarrow> world" where
  "refusing x = ref_world\<lparr>accepts := (\<lambda>s. s \<noteq> x)\<rparr>"

text \<open>Booking requests against the sample store.\<close>

definition booking :: "string \<Rightarrow> string \<Rightarrow> request" where
  "booking s e =
     post [(''start_datetime'', s), (''end_datetime'', e), (''reason'', ''checkup'')]"




definition booking_inverted :: request where
  "booking_inverted = booking ''2024-01-10T10:00'' ''2024-01-10T09:00''"

definition booking_garbled :: request where
  "booking_garbled = booking ''tomorrow at nine'' ''2024-01-10T09:00''"


definition booking_mixed :: request where
  "booking_mixed = booking ''2024-01-10T10:00:00+00:00'' ''2024-01-08T09:00''"

text \<open>Registration requests against the sample store.\<close>

definition registration :: "string \<Rightarrow> string \<Rightarrow> request" where
  "registration username email =
     post [(''full_name'', ''Carol Jones''), (''username'', username), (''email'', email),
           (''password'', ''pw9'')]"

section \<open>Auxiliary facts\<close>

subsection \<open>Zero-padded decimals are ordered as the numbers\<close>

lemma lex_append_less:
  fixes us vs :: "'a::linorder list"
  shows "length us = length vs \<Longrightarrow> (us @ xs < vs @ ys) = (us < vs \<or> us = vs \<and> xs < ys)"
  by (induction us vs rule: list_induct2) auto

lemma digit_less: "(digit a < digit b) = (a mod 10 < b mod 10)"
  by (simp add: digit_def less_char_def)

lemma digit_eq: "(digit a = digit b) = (a mod 10 = b mod 10)"
proof
  assume "digit a = digit b"
  then have "\<not> digit a < digit b" "\<not> digit b < digit a" by simp_all
  then show "a mod 10 = b mod 10" by (simp add: digit_less)
next
  assume "a mod 10 = b mod 10"
  then show "digit a = digit b" by (simp add: digit_def)
qed

lemma two_digits_order:
  "b < 10 \<Longrightarrow> d < 10 \<Longrightarrow> (a < c \<or> a = c \<and> b < d) = (10 * a + b < 10 * c + (d::nat))"
  by arith

lemma digit_0: "digit 0 = CHR ''0''"
  by code_simp

lemma pad0_Suc: "0 < w \<Longrightarrow> pad0 (Suc w) n = pad0 w (n div 10) @ [digit (n mod 10)]"
proof (cases "n < 10")
  case True
  assume w: "0 < w"
  have d: "dec n = [digit n]" "dec 0 = [CHR ''0'']"
    using True by (simp_all add: dec.simps digit_0)
  have "replicate (w - 1) (CHR ''0'') @ [CHR ''0''] = replicate w (CHR ''0'')"
    using w by (cases w) (simp_all add: replicate_append_same)
  with True d show ?thesis by (simp add: pad0_def digit_def)
next
  case False
  then have "dec n = dec (n div 10) @ [digit (n mod 10)]" by (simp add: dec.simps)
  then show ?thesis by (simp add: pad0_def)
qed

lemma pad0_1: "n < 10 \<Longrightarrow> pad0 (Suc 0) n = [digit n]"
  by (simp add: pad0_def dec.simps)

lemma length_pad0: "n < 10 ^ Suc w \<Longrightarrow> length (pad0 (Suc w) n) = Suc w"
proof (induction w arbitrary: n)
  case 0
  then show ?case by (simp add: pad0_1)
next
  case (Suc w)
  then have "n div 10 < 10 ^ Suc w" by (simp add: less_mult_imp_div_less)
  with Suc.IH show ?case by (simp add: pad0_Suc)
qed

lemma pad0_order:
  "x < 10 ^ Suc w \<Longrightarrow> y < 10 ^ Suc w \<Longrightarrow>
     (pad0 (Suc w) x < pad0 (Suc w) y) = (x < y) \<and> (pad0 (Suc w) x = pad0 (Suc w) y) = (x = y)"
proof (induction w arbitrary: x y)
  case 0
  then show ?case by (simp add: pad0_1 digit_less digit_eq)
next
  case (Suc w)
  then have b: "x div 10 < 10 ^ Suc w" "y div 10 < 10 ^ Suc w"
    by (simp_all add: less_mult_imp_div_less)
  note ih = Suc.IH [OF b]
  have len: "length (pad0 (Suc w) (x div 10)) = length (pad0 (Suc w) (y div 10))"
    using b by (simp add: length_pad0)
  have a1: "(x div 10 < y div 10 \<or> x div 10 = y div 10 \<and> x mod 10 < y mod 10) = (x < y)"
    using two_digits_order [of "x mod 10" "y mod 10" "x div 10" "y div 10"] by simp
  have a2: "(x div 10 = y div 10 \<and> x mod 10 = y mod 10) = (x = y)"
    by (metis div_mult_mod_eq)
  have px: "pad0 (Suc (Suc w)) x = pad0 (Suc w) (x div 10) @ [digit (x mod 10)]"
    and py: "pad0 (Suc (Suc w)) y = pad0 (Suc w) (y div 10) @ [digit (y mod 10)]"
    by (simp_all add: pad0_Suc)
  have dl: "([digit (x mod 10)] < [digit (y mod 10)]) = (x mod 10 < y mod 10)"
    by (simp add: digit_less)
  have de: "([digit (x mod 10)] = [digit (y mod 10)]) = (x mod 10 = y mod 10)"
    by (simp add: digit_eq)
  have "(pad0 (Suc (Suc w)) x < pad0 (Suc (Suc w)) y) = (x < y)"
    unfolding px py lex_append_less [OF len] dl using ih a1 by blast
  moreover have "(pad0 (Suc (Suc w)) x = pad0 (Suc (Suc w)) y) = (x = y)"
    unfolding px py using len ih a2 de by auto
  ultimately show ?case by blast
qed

lemma pad4:
  assumes "x < 10000" "y < 10000"
  shows "length (pad0 4 x) = 4" "(pad0 4 x < pad0 4 y) = (x < y)" "(pad0 4 x = pad0 4 y) = (x = y)"
proof -
  have e: "(4::nat) = Suc 3" by simp
  show "length (pad0 4 x) = 4" unfolding e using assms length_pad0 [of x 3] by simp
  show "(pad0 4 x < pad0 4 y) = (x < y)" unfolding e using assms pad0_order [of x 3 y] by simp
  show "(pad0 4 x = pad0 4 y) = (x = y)" unfolding e using assms pad0_order [of x 3 y] by simp
qed

lemma pad2:
  assumes "x < 100" "y < 100"
  shows "length (pad0 2 x) = 2" "(pad0 2 x < pad0 2 y) = (x < y)" "(pad0 2 x = pad0 2 y) = (x = y)"
proof -
  have e: "(2::nat) = Suc 1" by simp
  show "length (pad0 2 x) = 2" unfolding e using assms length_pad0 [of x 1] by simp
  show "(pad0 2 x < pad0 2 y) = (x < y)" unfolding e using assms pad0_order [of x 1 y] by simp
  show "(pad0 2 x = pad0 2 y) = (x = y)" unfolding e using assms pad0_order [of x 1 y] by simp
qed

lemma length_dec: "10 ^ k \<le> n \<Longrightarrow> k < length (dec n)"
proof (induction k arbitrary: n)
  case 0
  show ?case by (subst dec.simps) simp
next
  case (Suc k)
  have one: "1 \<le> (10::nat) ^ k" by simp
  from Suc.prems have big: "10 * 10 ^ k \<le> n" by simp
  from big have a: "10 ^ k \<le> n div 10" by (simp add: less_eq_div_iff_mult_less_eq)
  from big one have b: "\<not> n < 10" by arith
  from Suc.IH [OF a] b show ?case by (subst dec.simps) simp
qed

lemma year_digits: "1000 \<le> y \<Longrightarrow> dec y = pad0 4 y"
  using length_dec [of 3 y] by (simp add: pad0_def)

lemma field_less:
  fixes f g :: string
  shows "length f = length g \<Longrightarrow> (f @ c # r < g @ c # s) = (f < g \<or> f = g \<and> r < s)"
  by (simp add: lex_append_less)

lemma field_eq:
  fixes f g :: string
  shows "length f = length g \<Longrightarrow> (f @ c # r = g @ c # s) = (f = g \<and> r = s)"
  by simp

lemma days_in_month_le: "days_in_month y m \<le> 31"
  by (simp add: days_in_month_def)

lemma valid_bounds:
  assumes "valid_datetime d"
  shows "year d < 10000" "month d < 100" "day d < 100" "hour d < 100" "minute d < 100"
    "second d < 100"
  using assms days_in_month_le [of "year d" "month d"] by (simp_all add: valid_datetime_def)

lemma strftime_padded:
  assumes "four_digit_year d"
  shows "strftime E d =
     pad0 4 (year d) @ ''-'' @ pad0 2 (month d) @ ''-'' @ pad0 2 (day d) @ '' '' @
     pad0 2 (hour d) @ '':'' @ pad0 2 (minute d) @ '':'' @ pad0 2 (second d)"
  using assms by (simp add: strftime_def four_digit_year_def year_digits)

lemma strftime_less:
  assumes "four_digit_year x" "four_digit_year y"
  shows "(strftime E x < strftime E y) = (wall_seconds x < wall_seconds y)"
proof -
  have v: "valid_datetime x" "valid_datetime y" using assms by (simp_all add: four_digit_year_def)
  note vx = valid_bounds [OF v(1)] and vy = valid_bounds [OF v(2)]
  note Y = pad4 [OF vx(1) vy(1)] and M = pad2 [OF vx(2) vy(2)] and D = pad2 [OF vx(3) vy(3)]
    and h = pad2 [OF vx(4) vy(4)] and m = pad2 [OF vx(5) vy(5)] and s = pad2 [OF vx(6) vy(6)]
  have l4: "length (pad0 4 (year x)) = length (pad0 4 (year y))"
    using pad4(1) [OF vx(1) vx(1)] pad4(1) [OF vy(1) vy(1)] by simp
  have l2: "length (pad0 2 (month x)) = length (pad0 2 (month y))"
    "length (pad0 2 (day x)) = length (pad0 2 (day y))"
    "length (pad0 2 (hour x)) = length (pad0 2 (hour y))"
    "length (pad0 2 (minute x)) = length (pad0 2 (minute y))"
    using pad2(1) [OF vx(2) vx(2)] pad2(1) [OF vy(2) vy(2)]
      pad2(1) [OF vx(3) vx(3)] pad2(1) [OF vy(3) vy(3)]
      pad2(1) [OF vx(4) vx(4)] pad2(1) [OF vy(4) vy(4)]
      pad2(1) [OF vx(5) vx(5)] pad2(1) [OF vy(5) vy(5)] by simp_all
  show ?thesis
    unfolding strftime_padded [OF assms(1)] strftime_padded [OF assms(2)] wall_seconds_def
    by (simp add: field_less l4 l2 Y(2,3) M(2,3) D(2,3) h(2,3) m(2,3) s(2,3))
qed

lemma strftime_eq:
  assumes "four_digit_year x" "four_digit_year y"
  shows "(strftime E x = strftime E y) = (wall_seconds x = wall_seconds y)"
proof -
  have v: "valid_datetime x" "valid_datetime y" using assms by (simp_all add: four_digit_year_def)
  note vx = valid_bounds [OF v(1)] and vy = valid_bounds [OF v(2)]
  note Y = pad4 [OF vx(1) vy(1)] and M = pad2 [OF vx(2) vy(2)] and D = pad2 [OF vx(3) vy(3)]
    and h = pad2 [OF vx(4) vy(4)] and m = pad2 [OF vx(5) vy(5)] and s = pad2 [OF vx(6) vy(6)]
  have l4: "length (pad0 4 (year x)) = length (pad0 4 (year y))"
    using pad4(1) [OF vx(1) vx(1)] pad4(1) [OF vy(1) vy(1)] by simp
  have l2: "length (pad0 2 (month x)) = length (pad0 2 (month y))"
    "length (pad0 2 (day x)) = length (pad0 2 (day y))"
    "length (pad0 2 (hour x)) = length (pad0 2 (hour y))"
    "length (pad0 2 (minute x)) = length (pad0 2 (minute y))"
    using pad2(1) [OF vx(2) vx(2)] pad2(1) [OF vy(2) vy(2)]
      pad2(1) [OF vx(3) vx(3)] pad2(1) [OF vy(3) vy(3)]
      pad2(1) [OF vx(4) vx(4)] pad2(1) [OF vy(4) vy(4)]
      pad2(1) [OF vx(5) vx(5)] pad2(1) [OF vy(5) vy(5)] by simp_all
  show ?thesis
    unfolding strftime_padded [OF assms(1)] strftime_padded [OF assms(2)] wall_seconds_def
    by (simp add: l4 l2 Y(3) M(3) D(3) h(3) m(3) s(3))
qed

lemma strftime_le:
  assumes "four_digit_year x" "four_digit_year y"
  shows "(strftime E x \<le> strftime E y) = (wall_seconds x \<le> wall_seconds y)"
  using strftime_less [OF assms, of E] strftime_eq [OF assms, of E] by (simp add: le_less)

subsection \<open>Whole-second instants and the conflict filter\<close>

lemma whole_second_simps:
  "strftime E (whole_second x) = strftime E x"
  "wall_seconds (whole_second x) = wall_seconds x"
  "utcoffset (whole_second x) = None"
  "dt_tuple (whole_second x) = wall_seconds x @ [0]"
  by (simp_all add: whole_second_def strftime_def valid_datetime_def wall_seconds_def dt_tuple_def)

lemma valid_whole_second: "valid_datetime x \<Longrightarrow> valid_datetime (whole_second x)"
  by (simp add: whole_second_def valid_datetime_def)

lemma four_digit_whole_second: "four_digit_year x \<Longrightarrow> four_digit_year (whole_second x)"
  by (simp add: four_digit_year_def valid_whole_second) (simp add: whole_second_def)

lemma whole_second_idem: "whole_second (whole_second x) = whole_second x"
  by (simp add: whole_second_def)

lemma dt_cmp_whole_second:
  "dt_cmp (whole_second x) (whole_second y) =
     Inr (sign_of (wall_seconds x < wall_seconds y) (wall_seconds x = wall_seconds y))"
proof -
  have l: "length (wall_seconds x) = length (wall_seconds y)" by (simp add: wall_seconds_def)
  show ?thesis
    by (simp add: dt_cmp_def whole_second_simps lex_append_less [OF l])
qed

lemma before_whole_second:
  "before (whole_second x) (whole_second y) = (wall_seconds x < wall_seconds y)"
  by (simp add: before_def dt_cmp_whole_second sign_of_def)

lemma dt_le_whole_second:
  "dt_le (whole_second x) (whole_second y) = Inr (wall_seconds x \<le> wall_seconds y)"
  by (auto simp add: dt_le_def dt_cmp_whole_second sign_of_def)

lemma conflict_filter_overlaps:
  assumes "four_digit_year a" "four_digit_year b" "rendered_from E x (c, d)"
  shows "conflict_filter did (strftime E a) (strftime E b) x =
           (booked_for did x \<and> overlaps (whole_second a) (whole_second b) c d)"
proof -
  from assms(3) have v: "four_digit_year c" "four_digit_year d"
    and w: "whole_second c = c" "whole_second d = d"
    and s: "a_start_datetime x = strftime E c" "a_end_datetime x = strftime E d"
    by (simp_all add: rendered_from_def)
  have "overlaps (whole_second a) (whole_second b) (whole_second c) (whole_second d) =
          (wall_seconds a < wall_seconds d \<and> wall_seconds c < wall_seconds b)"
    by (simp add: overlaps_def before_whole_second)
  moreover have "(\<not> (strftime E d \<le> strftime E a \<or> strftime E c \<ge> strftime E b)) =
          (wall_seconds a < wall_seconds d \<and> wall_seconds c < wall_seconds b)"
    using strftime_le [OF v(2) assms(1), of E] strftime_le [OF assms(2) v(1), of E] by auto
  ultimately show ?thesis
    by (simp add: conflict_filter_def booked_for_def s w)
qed

section \<open>The claims\<close>

subsection \<open>Login\<close>

lemma find_key: "find P xs = Some x \<Longrightarrow> P x"
  by (induction xs) (auto split: if_splits)

lemma find_mem: "find P xs = Some x \<Longrightarrow> x \<in> set xs"
  by (induction xs) (auto split: if_splits)

lemma user_by_login_None:
  "(user_by_login db s = None) = list_all (\<lambda>u. u_username u \<noteq> s \<and> u_email u \<noteq> s) (users db)"
  by (auto simp add: user_by_login_def find_None_iff list_all_iff split: option.splits
      dest: find_key find_mem)

lemma sample_login_forms:
  "LoginForm_ok login_unknown" "LoginForm_ok login_wrong_password"
  "strip (field_data login_unknown ''username'') = ''nobody''"
  "strip (field_data login_wrong_password ''username'') = ''alice''"
  "field_data login_wrong_password ''password'' = ''wrong''"
  by (simp_all add: LoginForm_ok_def login_unknown_def login_wrong_password_def post_def
      data_required_def field_data_def strip_def isspace_def)

text \<open>
  When a username equals the e-mail address of another identity, the identifier selects
  the identity with that username: in the shadowed store the password of the later
  identity logs it in under the address of alice.
\<close>

lemma login_prefers_username:
  "login ref_world shadow_db login_shadow = login_success shadow_db shadow_user"
  by (simp add: login_def login_try_def LoginForm_ok_def login_shadow_def post_def
      data_required_def field_data_def strip_def isspace_def user_by_login_def shadow_db_def
      sample_db_def shadow_user_def ref_world_def)

text \<open>
  When the store refuses the query, or the credential check raises, the attempt ends in the
  \<^verbatim>\<open>except\<close> branch, with a message of its own and the store as it was.
\<close>

lemma login_unexpected_error:
  assumes "LoginForm_ok req"
    and "\<not> accepts E Select_user \<or>
         (\<exists>user e. user_by_login db (strip (field_data req ''username'')) = Some user \<and>
            check_password_hash E (u_password_hash user) (field_data req ''password'') = Inl e)"
  shows "login E db req =
           reply (Render ''login.html'')
             [(''An unexpected error occurred. Please try again.'', ''danger'')] db"
  using assms by (auto simp add: login_def login_try_def rollback_def session_of_def)

text \<open>
  Claim C9. A login attempt whose identifier is the username or e-mail of no identity and
  a login attempt whose identifier selects an identity but whose credential check fails
  have the same outcome: the same rendered view, the same flashed message
  \<^verbatim>\<open>Invalid username or password.\<close>, no session, the store as it was.
\<close>

theorem login_rejects_uniformly:
  assumes "LoginForm_ok r1" "LoginForm_ok r2" "accepts E Select_user"
    and "list_all (\<lambda>u. u_username u \<noteq> strip (field_data r1 ''username'') \<and>
                        u_email u \<noteq> strip (field_data r1 ''username'')) (users db)"
    and "user_by_login db (strip (field_data r2 ''username'')) = Some user"
    and "check_password_hash E (u_password_hash user) (field_data r2 ''password'') = Inr False"
  shows "login E db r1 = login E db r2 \<and>
         login E db r1 =
           reply (Render ''login.html'') [(''Invalid username or password.'', ''danger'')] db"
proof -
  have "user_by_login db (strip (field_data r1 ''username'')) = None"
    using assms(4) by (simp add: user_by_login_None)
  with assms show ?thesis by (simp add: login_def login_try_def)
qed

theorem login_rejects_uniformly_witness:
  "login ref_world sample_db login_unknown = login ref_world sample_db login_wrong_password \<and>
   login ref_world sample_db login_unknown =
     reply (Render ''login.html'') [(''Invalid username or password.'', ''danger'')] sample_db"
proof -
  have h3: "accepts ref_world Select_user" by (simp add: ref_world_def)
  have h4: "list_all (\<lambda>u. u_username u \<noteq> strip (field_data login_unknown ''username'') \<and>
                          u_email u \<noteq> strip (field_data login_unknown ''username''))
              (users sample_db)"
    by (simp add: sample_login_forms sample_db_def)
  have h5: "user_by_login sample_db (strip (field_data login_wrong_password ''username'')) =
              Some alice_user"
    by (simp add: sample_login_forms user_by_login_def sample_db_def alice_user_def)
  have h6: "check_password_hash ref_world (u_password_hash alice_user)
               (field_data login_wrong_password ''password'') = Inr False"
    by (simp add: sample_login_forms alice_user_def ref_world_def)
  show ?thesis
    by (rule login_rejects_uniformly [OF sample_login_forms(1,2) h3 h4 h5 h6])
qed

lemma find_map_option: "find P (map f xs) = map_option f (find (P \<circ> f) xs)"
  by (induction xs) simp_all

lemma doctor_profile_approve:
  "doctor_profile (approve db i) user =
     map_option (\<lambda>d. if d_id d = i then d\<lparr>d_is_approved := Some True\<rparr> else d)
       (doctor_profile db user)"
proof -
  have c: "(\<lambda>d. d_user_id (if d_id d = i then d\<lparr>d_is_approved := Some True\<rparr> else d) =
                u_id user) = (\<lambda>d. d_user_id d = u_id user)"
    by (rule ext) simp
  show ?thesis
    unfolding doctor_profile_def approve_def
    by (simp add: find_map_option comp_def c)
qed

text \<open>
  Claim C8. For an identity with role doctor whose credential is correct, the login binds
  the session exactly when the doctor profile exists with \<open>is_approved\<close> and \<open>is_active\<close>
  both true. A missing profile, an unapproved one and an inactive one are each turned away
  with a message of their own, none of them the message of a wrong credential; and once the
  approval flag of an unapproved, active profile is set, with nothing else changed, the
  same attempt succeeds.
\<close>

theorem doctor_login_gate:
  assumes "LoginForm_ok req" "accepts E Select_user" "accepts E Select_doctor"
    and "user_by_login db (strip (field_data req ''username'')) = Some user"
    and "check_password_hash E (u_password_hash user) (field_data req ''password'') = Inr True"
    and "u_role user = ''doctor''"
  shows "(logged_in (login E db req) = Some (u_id user)) =
           (\<exists>doc. doctor_profile db user = Some doc \<and> d_is_approved doc = Some True \<and>
                  d_is_active doc = Some True) \<and>
         (logged_in (login E db req) = Some (u_id user) \<longrightarrow>
            login E db req = login_success db user) \<and>
         (doctor_profile db user = None \<longrightarrow>
            login E db req =
              reply (Render ''login.html'')
                [(''Doctor profile not found. Contact admin.'', ''danger'')] db) \<and>
         (\<forall>doc. doctor_profile db user = Some doc \<longrightarrow> d_is_approved doc \<noteq> Some True \<longrightarrow>
            login E db req =
              reply (Render ''login.html'')
                [(''Your account is pending admin approval.'', ''warning'')] db) \<and>
         (\<forall>doc. doctor_profile db user = Some doc \<longrightarrow> d_is_approved doc = Some True \<longrightarrow>
            d_is_active doc \<noteq> Some True \<longrightarrow>
            login E db req =
              reply (Render ''login.html'')
                [(''Your account has been deactivated. Contact admin.'', ''danger'')] db) \<and>
         (\<forall>doc. doctor_profile db user = Some doc \<longrightarrow> d_is_approved doc \<noteq> Some True \<longrightarrow>
            d_is_active doc = Some True \<longrightarrow>
            login E (approve db (d_id doc)) req = login_success (approve db (d_id doc)) user) \<and>
         distinct [''Doctor profile not found. Contact admin.'',
                   ''Your account is pending admin approval.'',
                   ''Your account has been deactivated. Contact admin.'',
                   ''Invalid username or password.'']"
proof -
  have us: "users (approve db i) = users db" for i by (simp add: approve_def)
  have ap: "user_by_login (approve db i) s = user_by_login db s" for i s
    by (simp only: user_by_login_def us)
  show ?thesis
    using assms
    by (cases "doctor_profile db user")
       (auto simp add: login_def login_try_def truthy_def reply_def login_success_def ap
          doctor_profile_approve)
qed

theorem doctor_login_gate_witness:
  "login ref_world sample_db login_drnew =
     reply (Render ''login.html'')
       [(''Your account is pending admin approval.'', ''warning'')] sample_db \<and>
   login ref_world (approve sample_db 3) login_drnew =
     login_success (approve sample_db 3) drnew_user \<and>
   logged_in (login_success (approve sample_db 3) drnew_user) = Some 4"
proof -
  have f: "strip (field_data login_drnew ''username'') = ''drnew''"
    "field_data login_drnew ''password'' = ''pw4''"
    by (simp_all add: login_drnew_def post_def field_data_def strip_def isspace_def)
  have h1: "LoginForm_ok login_drnew"
    by (simp add: LoginForm_ok_def login_drnew_def post_def data_required_def strip_def
        isspace_def)
  have h2: "accepts ref_world Select_user" "accepts ref_world Select_doctor"
    by (simp_all add: ref_world_def)
  have h3: "user_by_login sample_db (strip (field_data login_drnew ''username'')) =
              Some drnew_user"
    by (simp add: f user_by_login_def sample_db_def drnew_user_def)
  have h4: "check_password_hash ref_world (u_password_hash drnew_user)
              (field_data login_drnew ''password'') = Inr True"
    by (simp add: f drnew_user_def ref_world_def)
  have h5: "u_role drnew_user = ''doctor''"
    by (simp add: drnew_user_def)
  have dp: "doctor_profile sample_db drnew_user = Some drnew_profile"
    by (simp add: doctor_profile_def sample_db_def drnew_user_def drnew_profile_def)
  have na: "d_is_approved drnew_profile \<noteq> Some True"
    and ac: "d_is_active drnew_profile = Some True" and di: "d_id drnew_profile = 3"
    by (simp_all add: drnew_profile_def)
  note T = doctor_login_gate [OF h1 h2 h3 h4 h5]
  note pending = T [THEN conjunct2, THEN conjunct2, THEN conjunct2, THEN conjunct1,
      rule_format, OF dp na]
  note flipped = T [THEN conjunct2, THEN conjunct2, THEN conjunct2, THEN conjunct2,
      THEN conjunct2, THEN conjunct1, rule_format, OF dp na ac]
  have "logged_in (login_success (approve sample_db 3) drnew_user) = Some 4"
    by (simp add: login_success_def drnew_user_def)
  with pending flipped show ?thesis by (simp add: di)
qed

subsection \<open>Completing an appointment\<close>

lemma sample_callers:
  "current_user sample_db (Some 1) = Some alice_user"
  "current_user sample_db (Some 2) = Some drbob_user"
  "current_user sample_db (Some 3) = Some dreve_user"
  "patient_profile sample_db alice_user = Some alice_profile"
  "doctor_profile sample_db drbob_user = Some drbob_profile"
  "doctor_profile sample_db dreve_user = Some dreve_profile"
  by (simp_all add: current_user_def patient_profile_def doctor_profile_def sample_db_def
      alice_user_def drbob_user_def dreve_user_def alice_profile_def drbob_profile_def
      dreve_profile_def)

lemma sample_rows:
  "find (\<lambda>a. a_id a = 1) (appointments sample_db) = Some sample_appointment"
  "find (\<lambda>a. a_id a = 2) (appointments sample_db) = Some sample_completed"
  "find (\<lambda>d. d_id d = 1) (doctors sample_db) = Some drbob_profile"
  by (simp_all add: sample_db_def sample_appointment_def sample_completed_def
      drbob_profile_def)

text \<open>
  The statements of a completion: the outcome when the store accepts all of them, and
  when it refuses one, whichever it is. An appointment that is already Completed keeps its
  row, and no UPDATE is sent for it.
\<close>

lemma complete_writes_outcome:
  "complete_writes E db appt req =
     (if (a_status appt = Some ''Completed'' \<or> accepts E Update_appointment) \<and>
         accepts E Insert_treatment \<and> accepts E Commit
      then reply (Redirect ''main.doctor_dashboard'' None)
             [(''Appointment completed and treatment saved.'', ''success'')]
             (db\<lparr>appointments :=
                   (if a_status appt = Some ''Completed'' then appointments db
                    else map (\<lambda>a. if a_id a = a_id appt
                                  then a\<lparr>a_status := Some ''Completed''\<rparr> else a)
                           (appointments db)),
                 treatments := treatments db @
                   [\<lparr>t_id = next_id (map t_id (treatments db)),
                     t_appointment_id = Some (a_id appt),
                     t_diagnosis = rq_form req ''diagnosis'',
                     t_prescription = rq_form req ''prescription'',
                     t_date_created = Some (utcnow E)\<rparr>]\<rparr>)
      else reply (ServerError OperationalError) [] db)"
  by (simp add: complete_writes_def update_status_def insert_treatment_def commit_def
      server_error_def session_of_def Let_def)

lemma complete_appointment_owner:
  assumes "current_user db uid = Some cu" "u_role cu = ''doctor''"
    and "doctor_profile db cu = Some doc"
    and "find (\<lambda>a. a_id a = aid) (appointments db) = Some appt"
    and "a_doctor_id appt = Some (d_id doc)"
    and "rq_method req = POST"
  shows "complete_appointment E db uid aid req = complete_writes E db appt req"
  using assms by (simp add: complete_appointment_def)

text \<open>
  Claim C5. A completing POST by the doctor who owns the appointment sets the status of
  that appointment to Completed and appends exactly one treatment that refers to it, when
  the store accepts the UPDATE, the INSERT and the COMMIT (no UPDATE is sent when the status
  is Completed already). When the store refuses any one of the statements, also the INSERT
  after it has accepted the UPDATE, or the COMMIT after both, the request ends in an error
  and the store is as it was: no outcome holds one write without the other.
\<close>

theorem completion_is_atomic:
  assumes "current_user db uid = Some cu" "u_role cu = ''doctor''"
    and "doctor_profile db cu = Some doc"
    and "find (\<lambda>a. a_id a = aid) (appointments db) = Some appt"
    and "a_doctor_id appt = Some (d_id doc)"
    and "rq_method req = POST"
  shows "complete_appointment E db uid aid req =
           (if (a_status appt = Some ''Completed'' \<or> accepts E Update_appointment) \<and>
               accepts E Insert_treatment \<and> accepts E Commit
            then reply (Redirect ''main.doctor_dashboard'' None)
                   [(''Appointment completed and treatment saved.'', ''success'')]
                   (db\<lparr>appointments :=
                         (if a_status appt = Some ''Completed'' then appointments db
                          else map (\<lambda>a. if a_id a = aid
                                        then a\<lparr>a_status := Some ''Completed''\<rparr> else a)
                                 (appointments db)),
                       treatments := treatments db @
                         [\<lparr>t_id = next_id (map t_id (treatments db)),
                           t_appointment_id = Some aid,
                           t_diagnosis = rq_form req ''diagnosis'',
                           t_prescription = rq_form req ''prescription'',
                           t_date_created = Some (utcnow E)\<rparr>]\<rparr>)
            else reply (ServerError OperationalError) [] db)"
proof -
  have "a_id appt = aid" using find_key [OF assms(4)] .
  then show ?thesis
    using complete_appointment_owner [OF assms, of E] complete_writes_outcome [of E db appt req]
    by simp
qed

theorem completion_is_atomic_witness:
  "complete_appointment ref_world sample_db (Some 2) 1 completion_form =
     reply (Redirect ''main.doctor_dashboard'' None)
       [(''Appointment completed and treatment saved.'', ''success'')]
       (sample_db\<lparr>appointments :=
                    [sample_appointment\<lparr>a_status := Some ''Completed''\<rparr>, sample_completed],
                  treatments := treatments sample_db @
                    [\<lparr>t_id = 2, t_appointment_id = Some 1, t_diagnosis = Some ''cold'',
                      t_prescription = Some ''tea'',
                      t_date_created = Some (utcnow ref_world)\<rparr>]\<rparr>) \<and>
   complete_appointment (refusing Update_appointment) sample_db (Some 2) 1 completion_form =
     reply (ServerError OperationalError) [] sample_db \<and>
   complete_appointment (refusing Insert_treatment) sample_db (Some 2) 1 completion_form =
     reply (ServerError OperationalError) [] sample_db \<and>
   complete_appointment (refusing Commit) sample_db (Some 2) 1 completion_form =
     reply (ServerError OperationalError) [] sample_db"
proof -
  have st: "a_status sample_appointment \<noteq> Some ''Completed''"
    by (simp add: sample_appointment_def)
  have h2: "u_role drbob_user = ''doctor''" by (simp add: drbob_user_def)
  have h5: "a_doctor_id sample_appointment = Some (d_id drbob_profile)"
    by (simp add: sample_appointment_def drbob_profile_def)
  have h6: "rq_method completion_form = POST" by (simp add: completion_form_def post_def)
  have ok: "accepts ref_world Update_appointment" "accepts ref_world Insert_treatment"
    "accepts ref_world Commit"
    by (simp_all add: ref_world_def)
  have no: "\<not> accepts (refusing Insert_treatment) Insert_treatment"
    "\<not> accepts (refusing Commit) Commit"
    "\<not> accepts (refusing Update_appointment) Update_appointment"
    by (simp_all add: refusing_def)
  have m: "map (\<lambda>a. if a_id a = 1 then a\<lparr>a_status := Some ''Completed''\<rparr> else a)
             (appointments sample_db) =
           [sample_appointment\<lparr>a_status := Some ''Completed''\<rparr>, sample_completed]"
    by (simp add: sample_db_def sample_appointment_def sample_completed_def)
  have n: "next_id (map t_id (treatments sample_db)) = 2"
    by (simp add: next_id_def sample_db_def)
  have f: "rq_form completion_form ''diagnosis'' = Some ''cold''"
    "rq_form completion_form ''prescription'' = Some ''tea''"
    by (simp_all add: completion_form_def post_def)
  note T = completion_is_atomic [OF sample_callers(2) h2 sample_callers(5) sample_rows(1) h5 h6]
  have "complete_appointment ref_world sample_db (Some 2) 1 completion_form =
     reply (Redirect ''main.doctor_dashboard'' None)
       [(''Appointment completed and treatment saved.'', ''success'')]
       (sample_db\<lparr>appointments :=
                    [sample_appointment\<lparr>a_status := Some ''Completed''\<rparr>, sample_completed],
                  treatments := treatments sample_db @
                    [\<lparr>t_id = 2, t_appointment_id = Some 1, t_diagnosis = Some ''cold'',
                      t_prescription = Some ''tea'',
                      t_date_created = Some (utcnow ref_world)\<rparr>]\<rparr>)"
    using T [of ref_world, unfolded m n f] ok st by simp
  moreover have "complete_appointment (refusing Update_appointment) sample_db (Some 2) 1
      completion_form = reply (ServerError OperationalError) [] sample_db"
    using T [of "refusing Update_appointment"] no(3) st by simp
  moreover have "complete_appointment (refusing Insert_treatment) sample_db (Some 2) 1
      completion_form = reply (ServerError OperationalError) [] sample_db"
    using T [of "refusing Insert_treatment"] no(1) by simp
  moreover have "complete_appointment (refusing Commit) sample_db (Some 2) 1
      completion_form = reply (ServerError OperationalError) [] sample_db"
    using T [of "refusing Commit"] no(2) by simp
  ultimately show ?thesis by simp
qed

text \<open>
  Claim C6. A caller who is not a doctor is turned away with \<^verbatim>\<open>Access denied.\<close>
  whatever the appointment id, existing or not; a doctor who targets an appointment of
  another doctor is turned away with the not-authorized message. Neither answer is the 404
  of a missing appointment, and the store keeps its state.
\<close>

theorem completion_is_authorized:
  assumes "current_user db uid = Some cu"
  shows "(u_role cu \<noteq> ''doctor'' \<longrightarrow>
            complete_appointment E db uid aid req =
              reply (Redirect ''main.index'' None) [(''Access denied.'', ''danger'')] db) \<and>
         (u_role cu = ''doctor'' \<longrightarrow>
            find (\<lambda>a. a_id a = aid) (appointments db) = None \<longrightarrow>
            complete_appointment E db uid aid req = reply (Abort 404) [] db) \<and>
         (\<forall>doc appt. u_role cu = ''doctor'' \<longrightarrow> doctor_profile db cu = Some doc \<longrightarrow>
            find (\<lambda>a. a_id a = aid) (appointments db) = Some appt \<longrightarrow>
            a_doctor_id appt \<noteq> Some (d_id doc) \<longrightarrow>
            complete_appointment E db uid aid req =
              reply (Redirect ''main.doctor_dashboard'' None)
                [(''You are not authorized to modify this appointment.'', ''danger'')] db) \<and>
         Redirect ''main.index'' None \<noteq> Abort 404 \<and>
         Redirect ''main.doctor_dashboard'' None \<noteq> Abort 404"
  using assms by (simp add: complete_appointment_def)

theorem completion_is_authorized_witness:
  "complete_appointment ref_world sample_db (Some 1) 1 completion_form =
     reply (Redirect ''main.index'' None) [(''Access denied.'', ''danger'')] sample_db \<and>
   complete_appointment ref_world sample_db (Some 1) 99 completion_form =
     reply (Redirect ''main.index'' None) [(''Access denied.'', ''danger'')] sample_db \<and>
   complete_appointment ref_world sample_db (Some 3) 99 completion_form =
     reply (Abort 404) [] sample_db \<and>
   complete_appointment ref_world sample_db (Some 3) 1 completion_form =
     reply (Redirect ''main.doctor_dashboard'' None)
       [(''You are not authorized to modify this appointment.'', ''danger'')] sample_db"
proof -
  have r1: "u_role alice_user \<noteq> ''doctor''" by (simp add: alice_user_def)
  have r3: "u_role dreve_user = ''doctor''" by (simp add: dreve_user_def)
  have nf: "find (\<lambda>a. a_id a = 99) (appointments sample_db) = None"
    by (simp add: sample_db_def sample_appointment_def sample_completed_def)
  have other: "a_doctor_id sample_appointment \<noteq> Some (d_id dreve_profile)"
    by (simp add: sample_appointment_def dreve_profile_def)
  note A = completion_is_authorized [OF sample_callers(1), of ref_world _ completion_form]
  note B = completion_is_authorized [OF sample_callers(3), of ref_world _ completion_form]
  have "complete_appointment ref_world sample_db (Some 1) 1 completion_form =
          reply (Redirect ''main.index'' None) [(''Access denied.'', ''danger'')] sample_db"
    using A [of 1] r1 by simp
  moreover have "complete_appointment ref_world sample_db (Some 1) 99 completion_form =
          reply (Redirect ''main.index'' None) [(''Access denied.'', ''danger'')] sample_db"
    using A [of 99] r1 by simp
  moreover have "complete_appointment ref_world sample_db (Some 3) 99 completion_form =
          reply (Abort 404) [] sample_db"
    using B [of 99] r3 nf by simp
  moreover have "complete_appointment ref_world sample_db (Some 3) 1 completion_form =
          reply (Redirect ''main.doctor_dashboard'' None)
            [(''You are not authorized to modify this appointment.'', ''danger'')] sample_db"
    using B [of 1] r3 sample_callers(6) sample_rows(1) other by simp
  ultimately show ?thesis by simp
qed

text \<open>
  Claim C7. Nothing guards a second completion: when the appointment is already Completed,
  a completing POST by the doctor who owns it is accepted with the same success answer, the
  appointment is still Completed afterwards, and the number of treatments that refer to the
  appointment has grown by one.
\<close>

theorem recompletion_adds_treatment:
  assumes "current_user db uid = Some cu" "u_role cu = ''doctor''"
    and "doctor_profile db cu = Some doc"
    and "find (\<lambda>a. a_id a = aid) (appointments db) = Some appt"
    and "a_doctor_id appt = Some (d_id doc)"
    and "a_status appt = Some ''Completed''"
    and "rq_method req = POST" "store_ok E"
  shows "response (complete_appointment E db uid aid req) =
           Redirect ''main.doctor_dashboard'' None \<and>
         flashes (complete_appointment E db uid aid req) =
           [(''Appointment completed and treatment saved.'', ''success'')] \<and>
         find (\<lambda>a. a_id a = aid)
           (appointments (store (complete_appointment E db uid aid req))) = Some appt \<and>
         length (filter (\<lambda>t. t_appointment_id t = Some aid)
                   (treatments (store (complete_appointment E db uid aid req)))) =
           Suc (length (filter (\<lambda>t. t_appointment_id t = Some aid) (treatments db)))"
proof -
  have k: "a_id appt = aid" using find_key [OF assms(4)] .
  have ok: "accepts E Update_appointment \<and> accepts E Insert_treatment \<and> accepts E Commit"
    using assms(8) by (simp add: store_ok_def)
  have run: "complete_appointment E db uid aid req =
      reply (Redirect ''main.doctor_dashboard'' None)
        [(''Appointment completed and treatment saved.'', ''success'')]
        (db\<lparr>appointments := appointments db,
            treatments := treatments db @
              [\<lparr>t_id = next_id (map t_id (treatments db)),
                t_appointment_id = Some aid,
                t_diagnosis = rq_form req ''diagnosis'',
                t_prescription = rq_form req ''prescription'',
                t_date_created = Some (utcnow E)\<rparr>]\<rparr>)"
    using complete_appointment_owner [OF assms(1-5,7), of E]
      complete_writes_outcome [of E db appt req] ok k assms(6)
    by simp
  show ?thesis
    unfolding run by (simp add: reply_def assms(4))
qed

theorem recompletion_adds_treatment_witness:
  "a_status sample_completed = Some ''Completed'' \<and>
   length (filter (\<lambda>t. t_appointment_id t = Some 2) (treatments sample_db)) = 1 \<and>
   response (complete_appointment ref_world sample_db (Some 3) 2 completion_form) =
     Redirect ''main.doctor_dashboard'' None \<and>
   find (\<lambda>a. a_id a = 2)
     (appointments (store (complete_appointment ref_world sample_db (Some 3) 2 completion_form))) =
     Some sample_completed \<and>
   length (filter (\<lambda>t. t_appointment_id t = Some 2)
             (treatments (store (complete_appointment ref_world sample_db (Some 3) 2
                completion_form)))) = 2"
proof -
  have h2: "u_role dreve_user = ''doctor''" by (simp add: dreve_user_def)
  have h5: "a_doctor_id sample_completed = Some (d_id dreve_profile)"
    by (simp add: sample_completed_def dreve_profile_def)
  have h6: "a_status sample_completed = Some ''Completed''"
    by (simp add: sample_completed_def)
  have h7: "rq_method completion_form = POST" by (simp add: completion_form_def post_def)
  have ok: "store_ok ref_world" by (simp add: store_ok_def ref_world_def)
  have c: "length (filter (\<lambda>t. t_appointment_id t = Some 2) (treatments sample_db)) = 1"
    by (simp add: sample_db_def)
  show ?thesis
    using recompletion_adds_treatment [OF sample_callers(3) h2 sample_callers(6) sample_rows(2)
        h5 h6 h7 ok] h6 c
    by simp
qed

subsection \<open>Booking an appointment\<close>

lemma sample_parses:
  "parse_datetime ref_world ''2024-01-10T09:30'' = Inr (Some (mk_datetime 2024 1 10 9 30 0 0))"
  "parse_datetime ref_world ''2024-01-10T10:00'' = Inr (Some (mk_datetime 2024 1 10 10 0 0 0))"
  "parse_datetime ref_world ''2024-01-10T09:15'' = Inr (Some (mk_datetime 2024 1 10 9 15 0 0))"
  "parse_datetime ref_world ''2024-01-10T09:45'' = Inr (Some (mk_datetime 2024 1 10 9 45 0 0))"
  "parse_datetime ref_world ''2024-01-10 08:00'' = Inr (Some (mk_datetime 2024 1 10 8 0 0 0))"
  "parse_datetime ref_world ''2024-01-10 09:01:00'' = Inr (Some (mk_datetime 2024 1 10 9 1 0 0))"
  "parse_datetime ref_world ''2024-01-10T09:00'' = Inr (Some (mk_datetime 2024 1 10 9 0 0 0))"
  "parse_datetime ref_world ''2024-01-08T09:00'' = Inr (Some (mk_datetime 2024 1 8 9 0 0 0))"
  "parse_datetime ref_world ''2024-01-10T08:59:59.500000'' =
     Inr (Some (mk_datetime 2024 1 10 8 59 59 500000))"
  "parse_datetime ref_world ''2024-01-10T09:00:00.500000'' =
     Inr (Some (mk_datetime 2024 1 10 9 0 0 500000))"
  "parse_datetime ref_world ''2024-01-10T10:00:00+00:00'' =
     Inr (Some ((mk_datetime 2024 1 10 10 0 0 0)\<lparr>utcoffset := Some 0\<rparr>))"
  by (simp_all add: parse_datetime_def ref_world_def ref_fromisoformat_def ref_strptime_def
      ref_offset_def matches_def isdigit_def num_at_def checked_def ref_fields_def
      valid_datetime_def days_in_month_def is_leap_def mk_datetime_def)

lemma sample_unparsable: "unparsable ref_world ''tomorrow at nine''"
  by (simp add: unparsable_def ref_world_def ref_strptime_def matches_def)

lemma strftime_mk_datetime:
  "strftime E (mk_datetime y mo d h mi s us) = strftime E (mk_datetime y mo d h mi s 0)"
  by (simp add: strftime_def mk_datetime_def)

lemma digit_chars:
  "digit 0 = CHR ''0''" "digit 1 = CHR ''1''" "digit 2 = CHR ''2''" "digit 3 = CHR ''3''"
  "digit 4 = CHR ''4''" "digit 5 = CHR ''5''" "digit 6 = CHR ''6''" "digit 7 = CHR ''7''"
  "digit 8 = CHR ''8''" "digit 9 = CHR ''9''" "digit (Suc 0) = CHR ''1''"
  by code_simp+

lemma digit_mod: "digit n = digit (n mod 10)"
  by (simp add: digit_def)

lemma pad0_two: "n < 100 \<Longrightarrow> pad0 2 n = [digit (n div 10 mod 10), digit (n mod 10)]"
proof -
  assume "n < 100"
  then have "n div 10 < 10" by simp
  then have "pad0 (Suc 0) (n div 10) = [digit (n div 10 mod 10)]" by (simp add: pad0_1)
  moreover have "pad0 (Suc (Suc 0)) n = pad0 (Suc 0) (n div 10) @ [digit (n mod 10)]"
    by (simp add: pad0_Suc)
  ultimately show ?thesis by (simp add: numeral_2_eq_2)
qed

lemma pad0_four:
  assumes "n < 10000"
  shows "pad0 4 n =
    [digit (n div 1000 mod 10), digit (n div 100 mod 10), digit (n div 10 mod 10),
     digit (n mod 10)]"
proof -
  have e: "(4::nat) = Suc (Suc 2)" by simp
  have "n div 10 div 10 < 100" using assms by simp
  from pad0_two [OF this]
  have "pad0 2 (n div 10 div 10) =
          [digit (n div 1000 mod 10), digit (n div 100 mod 10)]"
    by (simp add: div_mult2_eq [symmetric])
  moreover have "pad0 4 n = pad0 2 (n div 10 div 10) @ [digit (n div 10 mod 10), digit (n mod 10)]"
    unfolding e by (simp add: pad0_Suc numeral_2_eq_2)
  ultimately show ?thesis by simp
qed

lemma sample_renderings:
  "strftime ref_world (mk_datetime 2024 1 10 9 30 0 0) = ''2024-01-10 09:30:00''"
  "strftime ref_world (mk_datetime 2024 1 10 10 0 0 0) = ''2024-01-10 10:00:00''"
  "strftime ref_world (mk_datetime 2024 1 10 9 15 0 0) = ''2024-01-10 09:15:00''"
  "strftime ref_world (mk_datetime 2024 1 10 9 45 0 0) = ''2024-01-10 09:45:00''"
  "strftime ref_world (mk_datetime 2024 1 10 8 0 0 0) = ''2024-01-10 08:00:00''"
  "strftime ref_world (mk_datetime 2024 1 10 9 1 0 0) = ''2024-01-10 09:01:00''"
  "strftime ref_world (mk_datetime 2024 1 10 9 0 0 0) = ''2024-01-10 09:00:00''"
  "strftime ref_world (mk_datetime 2024 1 10 8 59 59 0) = ''2024-01-10 08:59:59''"
  by (simp_all add: strftime_def ref_world_def mk_datetime_def year_digits pad0_two pad0_four
      digit_chars)

lemma sample_booking_forms:
  "BookAppointmentForm_ok (booking s e) = (s \<noteq> [] \<and> strip s \<noteq> [] \<and> e \<noteq> [] \<and> strip e \<noteq> [])"
  "field_data (booking s e) ''start_datetime'' = s"
  "field_data (booking s e) ''end_datetime'' = e"
  "text_data E (booking s e) ''reason'' = Some ''checkup''"
  by (auto simp add: BookAppointmentForm_ok_def booking_def post_def data_required_def
      field_data_def text_data_def)







lemma sample_booked:
  "booked_for 1 sample_appointment" "\<not> booked_for 1 sample_completed"
  "rendered_from ref_world sample_appointment (sample_intervals sample_appointment)"
  "sample_intervals sample_appointment =
     (mk_datetime 2024 1 10 9 0 0 0, mk_datetime 2024 1 10 9 30 0 0)"
  "list_all (\<lambda>x. booked_for 1 x \<longrightarrow> rendered_from ref_world x (sample_intervals x))
     (appointments sample_db)"
proof -
  show b: "booked_for 1 sample_appointment" "\<not> booked_for 1 sample_completed"
    by (simp_all add: booked_for_def sample_appointment_def sample_completed_def)
  show i: "sample_intervals sample_appointment =
     (mk_datetime 2024 1 10 9 0 0 0, mk_datetime 2024 1 10 9 30 0 0)"
    by (simp add: sample_intervals_def sample_appointment_def)
  have f: "four_digit_year (mk_datetime 2024 1 10 9 0 0 0)"
    "four_digit_year (mk_datetime 2024 1 10 9 30 0 0)"
    by (simp_all add: four_digit_year_def valid_datetime_def days_in_month_def mk_datetime_def)
  have w: "whole_second (mk_datetime 2024 1 10 9 0 0 0) = mk_datetime 2024 1 10 9 0 0 0"
    "whole_second (mk_datetime 2024 1 10 9 30 0 0) = mk_datetime 2024 1 10 9 30 0 0"
    by (simp_all add: whole_second_def mk_datetime_def)
  show r: "rendered_from ref_world sample_appointment (sample_intervals sample_appointment)"
    unfolding i
    by (simp add: rendered_from_def f w sample_renderings sample_appointment_def
        del: One_nat_def)
  show "list_all (\<lambda>x. booked_for 1 x \<longrightarrow> rendered_from ref_world x (sample_intervals x))
     (appointments sample_db)"
    using b r by (simp add: sample_db_def)
qed

lemma sample_datetimes:
  "four_digit_year (mk_datetime y mo d h mi s us) =
     (1000 \<le> y \<and> y \<le> 9999 \<and> 1 \<le> mo \<and> mo \<le> 12 \<and> 1 \<le> d \<and>
      d \<le> (if mo = 2 then (if is_leap y then 29 else 28)
             else if mo = 4 \<or> mo = 6 \<or> mo = 9 \<or> mo = 11 then 30 else 31) \<and>
      h < 24 \<and> mi < 60 \<and> s < 60 \<and> us < 1000000)"
  "whole_second (mk_datetime y mo d h mi s us) = mk_datetime y mo d h mi s 0"
  by (auto simp add: four_digit_year_def valid_datetime_def days_in_month_def mk_datetime_def
      whole_second_def)

lemma sample_order:
  "dt_cmp (mk_datetime y mo d h mi s us) (mk_datetime y' mo' d' h' mi' s' us') =
     Inr (sign_of ([y, mo, d, h, mi, s, us] < [y', mo', d', h', mi', s', us'])
            ([y, mo, d, h, mi, s, us] = [y', mo', d', h', mi', s', us']))"
  by (simp add: dt_cmp_def dt_tuple_def mk_datetime_def)





text \<open>
  The parsing helper never raises, and answers \<open>None\<close> on a string that no format accepts;
  a request with such a string, or with an end that compares as not after its start, is
  answered with \<^verbatim>\<open>Invalid time range.\<close> and leaves the store as it was.
\<close>

lemma parse_datetime_total: "\<exists>r. parse_datetime E s = Inr r"
  by (simp add: parse_datetime_def split: sum.splits py_exn.splits)

lemma parse_datetime_unparsable:
  assumes "unparsable E s"
  shows "parse_datetime E s = Inr None"
proof (cases "CHR ''T'' \<in> set s")
  case True
  with assms obtain e where "fromisoformat E s = Inl e"
    by (auto simp add: unparsable_def isl_def)
  with True show ?thesis by (simp add: parse_datetime_def)
next
  case False
  with assms obtain e1 e2 where "strptime E s ''%Y-%m-%d %H:%M:%S'' = Inl e1"
    "strptime E s ''%Y-%m-%d %H:%M'' = Inl e2"
    by (auto simp add: unparsable_def isl_def)
  with False show ?thesis by (simp add: parse_datetime_def split: py_exn.splits)
qed

lemma invalid_range_rejected:
  assumes "current_user db uid = Some cu" "u_role cu = ''patient''"
    and "find (\<lambda>d. d_id d = did) (doctors db) = Some doctor"
    and "BookAppointmentForm_ok req"
    and "unparsable E (field_data req ''start_datetime'') \<or>
         unparsable E (field_data req ''end_datetime'') \<or>
         (\<exists>a b. parse_datetime E (field_data req ''start_datetime'') = Inr (Some a) \<and>
                parse_datetime E (field_data req ''end_datetime'') = Inr (Some b) \<and>
                dt_le b a = Inr True)"
  shows "book_appointment E db uid did req =
           reply (Redirect ''main.book_appointment'' (Some did))
             [(''Invalid time range.'', ''danger'')] db"
proof -
  have k: "d_id doctor = did" using find_key [OF assms(3)] .
  obtain r1 r2 where r: "parse_datetime E (field_data req ''start_datetime'') = Inr r1"
    "parse_datetime E (field_data req ''end_datetime'') = Inr r2"
    using parse_datetime_total by blast
  from assms(5) consider "r1 = None" | "r2 = None"
    | a b where "r1 = Some a" "r2 = Some b" "dt_le b a = Inr True"
    using r parse_datetime_unparsable by fastforce
  then show ?thesis
  proof cases
    case 1
    with assms(1-4) r k show ?thesis by (simp add: book_appointment_def)
  next
    case 2
    with assms(1-4) r k show ?thesis
      by (simp add: book_appointment_def split: option.splits)
  next
    case 3
    with assms(1-4) r k show ?thesis by (simp add: book_appointment_def)
  qed
qed

lemma invalid_range_samples:
  "book_appointment ref_world sample_db (Some 1) 1 booking_garbled =
     reply (Redirect ''main.book_appointment'' (Some 1))
       [(''Invalid time range.'', ''danger'')] sample_db"
  "book_appointment ref_world sample_db (Some 1) 1 booking_inverted =
     reply (Redirect ''main.book_appointment'' (Some 1))
       [(''Invalid time range.'', ''danger'')] sample_db"
proof -
  have r: "u_role alice_user = ''patient''" by (simp add: alice_user_def)
  have f: "BookAppointmentForm_ok booking_garbled" "BookAppointmentForm_ok booking_inverted"
    by (simp_all add: booking_garbled_def booking_inverted_def sample_booking_forms strip_def
        isspace_def)
  have g: "unparsable ref_world (field_data booking_garbled ''start_datetime'')"
    by (simp add: booking_garbled_def sample_booking_forms sample_unparsable)
  have p: "parse_datetime ref_world (field_data booking_inverted ''start_datetime'') =
             Inr (Some (mk_datetime 2024 1 10 10 0 0 0))"
    "parse_datetime ref_world (field_data booking_inverted ''end_datetime'') =
             Inr (Some (mk_datetime 2024 1 10 9 0 0 0))"
    by (simp_all add: booking_inverted_def sample_booking_forms sample_parses)
  have le: "dt_le (mk_datetime 2024 1 10 9 0 0 0) (mk_datetime 2024 1 10 10 0 0 0) = Inr True"
    by (simp add: dt_le_def sample_order sign_of_def)
  show "book_appointment ref_world sample_db (Some 1) 1 booking_garbled =
     reply (Redirect ''main.book_appointment'' (Some 1))
       [(''Invalid time range.'', ''danger'')] sample_db"
    using g by (intro invalid_range_rejected [OF sample_callers(1) r sample_rows(3) f(1)]) simp
  show "book_appointment ref_world sample_db (Some 1) 1 booking_inverted =
     reply (Redirect ''main.book_appointment'' (Some 1))
       [(''Invalid time range.'', ''danger'')] sample_db"
    using p le by (intro invalid_range_rejected [OF sample_callers(1) r sample_rows(3) f(2)]) blast
qed

text \<open>
  Claim C3. The request below has two strings that parse, and an end two days before its
  start. The start carries a UTC offset and the end does not, so the comparison of line
  278 raises \<^verbatim>\<open>TypeError\<close>: the request ends in status 500, not in the validation
  error.
\<close>

theorem booking_mixed_offsets_raises:
  "parse_datetime ref_world (field_data booking_mixed ''start_datetime'') =
     Inr (Some ((mk_datetime 2024 1 10 10 0 0 0)\<lparr>utcoffset := Some 0\<rparr>)) \<and>
   parse_datetime ref_world (field_data booking_mixed ''end_datetime'') =
     Inr (Some (mk_datetime 2024 1 8 9 0 0 0)) \<and>
   dt_le (mk_datetime 2024 1 8 9 0 0 0) ((mk_datetime 2024 1 10 10 0 0 0)\<lparr>utcoffset := Some 0\<rparr>) =
     Inl TypeError \<and>
   book_appointment ref_world sample_db (Some 1) 1 booking_mixed =
     reply (ServerError TypeError) [] sample_db"
proof -
  have r: "u_role alice_user = ''patient''" by (simp add: alice_user_def)
  have f: "BookAppointmentForm_ok booking_mixed"
    by (simp add: booking_mixed_def sample_booking_forms strip_def isspace_def)
  have p: "parse_datetime ref_world (field_data booking_mixed ''start_datetime'') =
     Inr (Some ((mk_datetime 2024 1 10 10 0 0 0)\<lparr>utcoffset := Some 0\<rparr>))"
    "parse_datetime ref_world (field_data booking_mixed ''end_datetime'') =
     Inr (Some (mk_datetime 2024 1 8 9 0 0 0))"
    by (simp_all add: booking_mixed_def sample_booking_forms sample_parses)
  have le: "dt_le (mk_datetime 2024 1 8 9 0 0 0)
              ((mk_datetime 2024 1 10 10 0 0 0)\<lparr>utcoffset := Some 0\<rparr>) = Inl TypeError"
    by (simp add: dt_le_def dt_cmp_def mk_datetime_def)
  have "book_appointment ref_world sample_db (Some 1) 1 booking_mixed =
          reply (ServerError TypeError) [] sample_db"
    using sample_callers(1) r sample_rows(3) f p le
    by (simp add: book_appointment_def del: One_nat_def)
  with p le show ?thesis by (simp del: One_nat_def)
qed

text \<open>
  Where the C library does not pad the year, as in the reference world, the rendering is
  not zero padded below the year 1000, and the order of the strings is not that of the
  datetimes there.
\<close>

lemma unpadded_year_order:
  "valid_datetime (mk_datetime 999 12 31 23 59 59 0) \<and>
   valid_datetime (mk_datetime 1000 1 1 0 0 0 0) \<and>
   before (mk_datetime 999 12 31 23 59 59 0) (mk_datetime 1000 1 1 0 0 0 0) \<and>
   strftime ref_world (mk_datetime 999 12 31 23 59 59 0) = ''999-12-31 23:59:59'' \<and>
   strftime ref_world (mk_datetime 1000 1 1 0 0 0 0) = ''1000-01-01 00:00:00'' \<and>
   strftime ref_world (mk_datetime 1000 1 1 0 0 0 0) <
     strftime ref_world (mk_datetime 999 12 31 23 59 59 0)"
proof -
  have d: "dec 999 = ''999''"
    by (simp add: dec.simps [of 999] dec.simps [of 99] dec.simps [of 9] digit_chars
        digit_mod [of 999] digit_mod [of 99])
  have s: "strftime ref_world (mk_datetime 999 12 31 23 59 59 0) = ''999-12-31 23:59:59''"
    "strftime ref_world (mk_datetime 1000 1 1 0 0 0 0) = ''1000-01-01 00:00:00''"
    by (simp_all add: strftime_def ref_world_def mk_datetime_def year_digits pad0_two pad0_four
        digit_chars d)
  have v: "valid_datetime (mk_datetime 999 12 31 23 59 59 0)"
    "valid_datetime (mk_datetime 1000 1 1 0 0 0 0)"
    by (simp_all add: valid_datetime_def days_in_month_def mk_datetime_def)
  have b: "before (mk_datetime 999 12 31 23 59 59 0) (mk_datetime 1000 1 1 0 0 0 0)"
    by (simp add: before_def sample_order sign_of_def)
  have "(''1000-01-01 00:00:00'' :: string) < ''999-12-31 23:59:59''"
    by (simp add: less_char_def)
  with v b s show ?thesis by (simp del: One_nat_def)
qed

text \<open>
  Claim C10 as stated fails below the second: two datetimes of the same second are in
  chronological order and have the same rendering, and a requested interval that overlaps
  a stored one by half a second is not found by the conflict query.
\<close>

theorem strings_disagree_below_a_second:
  "four_digit_year (mk_datetime 2024 1 10 9 0 0 0) \<and>
   four_digit_year (mk_datetime 2024 1 10 9 0 0 750000) \<and>
   before (mk_datetime 2024 1 10 9 0 0 0) (mk_datetime 2024 1 10 9 0 0 750000) \<and>
   \<not> strftime ref_world (mk_datetime 2024 1 10 9 0 0 0) <
       strftime ref_world (mk_datetime 2024 1 10 9 0 0 750000) \<and>
   rendered_from ref_world sample_appointment
     (mk_datetime 2024 1 10 9 0 0 0, mk_datetime 2024 1 10 9 30 0 0) \<and>
   booked_for 1 sample_appointment \<and>
   overlaps (mk_datetime 2024 1 10 8 59 59 250000) (mk_datetime 2024 1 10 9 0 0 750000)
     (mk_datetime 2024 1 10 9 0 0 0) (mk_datetime 2024 1 10 9 30 0 0) \<and>
   \<not> conflict_filter 1 (strftime ref_world (mk_datetime 2024 1 10 8 59 59 250000))
       (strftime ref_world (mk_datetime 2024 1 10 9 0 0 750000)) sample_appointment"
proof -
  have s: "strftime ref_world (mk_datetime 2024 1 10 8 59 59 250000) = ''2024-01-10 08:59:59''"
    "strftime ref_world (mk_datetime 2024 1 10 9 0 0 750000) = ''2024-01-10 09:00:00''"
    using strftime_mk_datetime [of ref_world 2024 1 10 8 59 59 250000]
      strftime_mk_datetime [of ref_world 2024 1 10 9 0 0 750000]
    by (simp_all add: sample_renderings del: One_nat_def)
  have y: "four_digit_year (mk_datetime 2024 1 10 9 0 0 0)"
    "four_digit_year (mk_datetime 2024 1 10 9 0 0 750000)"
    by (simp_all add: sample_datetimes)
  have b: "before (mk_datetime 2024 1 10 9 0 0 0) (mk_datetime 2024 1 10 9 0 0 750000)"
    by (simp add: before_def sample_order sign_of_def)
  have ov: "overlaps (mk_datetime 2024 1 10 8 59 59 250000) (mk_datetime 2024 1 10 9 0 0 750000)
     (mk_datetime 2024 1 10 9 0 0 0) (mk_datetime 2024 1 10 9 30 0 0)"
    by (simp add: overlaps_def before_def sample_order sign_of_def)
  have q: "\<not> conflict_filter 1 ''2024-01-10 08:59:59'' ''2024-01-10 09:00:00'' sample_appointment"
    by (simp add: conflict_filter_def sample_appointment_def)
  from y b ov q sample_booked(1) sample_booked(3) [unfolded sample_booked(4)]
  show ?thesis by (simp add: s sample_renderings del: One_nat_def)
qed

text \<open>
  Claim C10, as the code has it. For datetimes of the years 1000 to 9999 the order of the
  renderings is the chronological order of the datetimes taken to the whole second
  (microsecond and offset dropped), which is the datetime itself when it is naive and has
  no fraction of a second. Hence on a stored row that holds the renderings of two such
  instants the filter of the conflict query is exactly the overlap test on the request
  taken to the whole second; and the two strings the handler stores hold the renderings of
  the request taken to the whole second.
\<close>

theorem strings_order_as_whole_seconds:
  assumes "four_digit_year a" "four_digit_year b" "rendered_from E x (c, d)"
  shows "(strftime E a < strftime E b) = before (whole_second a) (whole_second b) \<and>
         dt_le (whole_second a) (whole_second b) = Inr (strftime E a \<le> strftime E b) \<and>
         conflict_filter did (strftime E a) (strftime E b) x =
           (booked_for did x \<and> overlaps (whole_second a) (whole_second b) c d) \<and>
         rendered_from E (y\<lparr>a_start_datetime := strftime E a, a_end_datetime := strftime E b\<rparr>)
           (whole_second a, whole_second b)"
  using strftime_less [OF assms(1,2), of E] strftime_le [OF assms(1,2), of E]
    conflict_filter_overlaps [OF assms] four_digit_whole_second [OF assms(1)]
    four_digit_whole_second [OF assms(2)]
  by (simp add: before_whole_second dt_le_whole_second rendered_from_def whole_second_idem
      whole_second_simps)

theorem strings_order_as_whole_seconds_witness:
  "strftime ref_world (mk_datetime 2024 1 10 9 15 0 0) <
     strftime ref_world (mk_datetime 2024 1 10 9 45 0 0) \<and>
   conflict_filter 1 (strftime ref_world (mk_datetime 2024 1 10 9 15 0 0))
     (strftime ref_world (mk_datetime 2024 1 10 9 45 0 0)) sample_appointment \<and>
   \<not> conflict_filter 1 (strftime ref_world (mk_datetime 2024 1 10 9 30 0 0))
       (strftime ref_world (mk_datetime 2024 1 10 10 0 0 0)) sample_appointment"
proof -
  have y: "four_digit_year (mk_datetime 2024 1 10 9 15 0 0)"
    "four_digit_year (mk_datetime 2024 1 10 9 45 0 0)"
    "four_digit_year (mk_datetime 2024 1 10 9 30 0 0)"
    "four_digit_year (mk_datetime 2024 1 10 10 0 0 0)"
    by (simp_all add: sample_datetimes)
  note r = sample_booked(3) [unfolded sample_booked(4)]
  note T1 = strings_order_as_whole_seconds [OF y(1,2) r, of 1]
  note T2 = strings_order_as_whole_seconds [OF y(3,4) r, of 1]
  from T1 T2 sample_booked(1) show ?thesis
    by (simp add: sample_datetimes overlaps_def before_def sample_order sign_of_def
        del: One_nat_def)
qed

subsection \<open>Registration\<close>

lemma fold_max_ge: "(a::nat) \<le> fold max xs a"
proof (induction xs arbitrary: a)
  case Nil
  show ?case by simp
next
  case (Cons x xs)
  have "a \<le> max x a" by simp
  also have "max x a \<le> fold max xs (max x a)" by (rule Cons.IH)
  finally show ?case by simp
qed

lemma fold_max_mem: "x \<in> set xs \<Longrightarrow> (x::nat) \<le> fold max xs a"
proof (induction xs arbitrary: a)
  case Nil
  then show ?case by simp
next
  case (Cons y ys)
  show ?case
  proof (cases "x = y")
    case True
    have "x \<le> max y a" using True by simp
    also have "max y a \<le> fold max ys (max y a)" by (rule fold_max_ge)
    finally show ?thesis by simp
  next
    case False
    with Cons.prems have "x \<in> set ys" by simp
    from Cons.IH [OF this] show ?thesis by simp
  qed
qed

lemma next_id_fresh: "x \<in> set ids \<Longrightarrow> x < next_id ids"
  using fold_max_mem [of x ids 0] by (simp add: next_id_def)

text \<open>
  The transaction of a registration on a store that accepts its three statements, for a
  username and an e-mail address that no identity has, when every patient profile refers
  to an identity that exists.
\<close>

lemma register_try_commits:
  assumes "generate_password_hash E password = Inr h"
    and "accepts E Insert_user" "accepts E Insert_patient" "accepts E Commit"
    and "list_all (\<lambda>u. u_username u \<noteq> username \<and> u_email u \<noteq> email) (users db)"
    and "list_all (\<lambda>p. p_user_id p \<in> set (map u_id (users db))) (patients db)"
  shows "\<exists>s. register_try E (session_of db) username email full_name password = Inr s \<and>
           committed s =
             db\<lparr>users := users db @
                   [\<lparr>u_id = next_id (map u_id (users db)), u_username = username,
                     u_email = email, u_password_hash = h, u_full_name = Some full_name,
                     u_role = ''patient''\<rparr>],
                patients := patients db @
                   [\<lparr>p_id = next_id (map p_id (patients db)),
                     p_user_id = next_id (map u_id (users db)), p_dob = None, p_gender = None,
                     p_contact = None\<rparr>]\<rparr>"
proof -
  have u: "\<not> list_ex (\<lambda>v. u_username v = username \<or> u_email v = email) (users db)"
    using assms(5) by (auto simp add: list_ex_iff list_all_iff)
  have "p_user_id q \<noteq> next_id (map u_id (users db))" if "q \<in> set (patients db)" for q
  proof -
    from that assms(6) have "p_user_id q \<in> set (map u_id (users db))"
      by (simp add: list_all_iff)
    from next_id_fresh [OF this] show ?thesis by simp
  qed
  then have p: "\<not> list_ex (\<lambda>q. p_user_id q = next_id (map u_id (users db))) (patients db)"
    by (auto simp add: list_ex_iff)
  show ?thesis
    using assms(1-4) u p
    by (simp add: register_try_def insert_user_def insert_patient_def commit_def session_of_def
        Let_def)
qed

text \<open>
  Whatever the store refuses and whatever the hashing does, a registration either commits
  the whole transaction or leaves the store as it was.
\<close>

lemma register_try_atomic:
  "register_try E (session_of db) username email full_name password = Inl (e, s) \<Longrightarrow>
     committed (rollback s) = db"
  by (auto simp add: register_try_def insert_user_def insert_patient_def commit_def
      session_of_def rollback_def Let_def split: sum.splits if_splits)

text \<open>
  Claim C4. A valid registration whose username and e-mail address no identity has creates
  exactly one identity, with role patient and the hash of the password as its credential,
  and exactly one patient profile that refers to the id of that identity, when the hashing
  and the three statements succeed and every stored patient profile refers to a stored
  identity. A valid registration whose username or e-mail address some identity has is
  answered with \<^verbatim>\<open>Username or email already exists.\<close> and creates no row.
\<close>

theorem registration_creates_pair:
  assumes "RegisterForm_ok E req"
  shows "(list_all (\<lambda>u. u_username u \<noteq> strip (field_data req ''username'') \<and>
                        u_email u \<noteq> strip (field_data req ''email'')) (users db) \<and>
          generate_password_hash E (field_data req ''password'') = Inr h \<and>
          accepts E Insert_user \<and> accepts E Insert_patient \<and> accepts E Commit \<and>
          list_all (\<lambda>p. p_user_id p \<in> set (map u_id (users db))) (patients db) \<longrightarrow>
          register E db req =
            reply (Redirect ''main.login'' None)
              [(''Registration successful! Please log in.'', ''success'')]
              (db\<lparr>users := users db @
                    [\<lparr>u_id = next_id (map u_id (users db)),
                      u_username = strip (field_data req ''username''),
                      u_email = strip (field_data req ''email''), u_password_hash = h,
                      u_full_name = Some (strip (field_data req ''full_name'')),
                      u_role = ''patient''\<rparr>],
                  patients := patients db @
                    [\<lparr>p_id = next_id (map p_id (patients db)),
                      p_user_id = next_id (map u_id (users db)), p_dob = None,
                      p_gender = None, p_contact = None\<rparr>]\<rparr>)) \<and>
         (list_ex (\<lambda>u. u_username u = strip (field_data req ''username'') \<or>
                       u_email u = strip (field_data req ''email'')) (users db) \<longrightarrow>
          register E db req =
            reply (Render ''register.html'')
              [(''Username or email already exists.'', ''danger'')] db)"
proof (intro conjI impI)
  assume a: "list_all (\<lambda>u. u_username u \<noteq> strip (field_data req ''username'') \<and>
                        u_email u \<noteq> strip (field_data req ''email'')) (users db) \<and>
          generate_password_hash E (field_data req ''password'') = Inr h \<and>
          accepts E Insert_user \<and> accepts E Insert_patient \<and> accepts E Commit \<and>
          list_all (\<lambda>p. p_user_id p \<in> set (map u_id (users db))) (patients db)"
  then have none: "find (\<lambda>u. u_username u = strip (field_data req ''username'') \<or>
                      u_email u = strip (field_data req ''email'')) (users db) = None"
    by (auto simp add: find_None_iff list_all_iff)
  from a register_try_commits [of E "field_data req ''password''" h
      "strip (field_data req ''username'')" "strip (field_data req ''email'')" db
      "strip (field_data req ''full_name'')"]
  obtain s where "register_try E (session_of db) (strip (field_data req ''username''))
          (strip (field_data req ''email'')) (strip (field_data req ''full_name''))
          (field_data req ''password'') = Inr s"
    and "committed s =
             db\<lparr>users := users db @
                   [\<lparr>u_id = next_id (map u_id (users db)),
                     u_username = strip (field_data req ''username''),
                     u_email = strip (field_data req ''email''), u_password_hash = h,
                     u_full_name = Some (strip (field_data req ''full_name'')),
                     u_role = ''patient''\<rparr>],
                patients := patients db @
                   [\<lparr>p_id = next_id (map p_id (patients db)),
                     p_user_id = next_id (map u_id (users db)), p_dob = None, p_gender = None,
                     p_contact = None\<rparr>]\<rparr>"
    by blast
  with assms none show "register E db req =
            reply (Redirect ''main.login'' None)
              [(''Registration successful! Please log in.'', ''success'')]
              (db\<lparr>users := users db @
                    [\<lparr>u_id = next_id (map u_id (users db)),
                      u_username = strip (field_data req ''username''),
                      u_email = strip (field_data req ''email''), u_password_hash = h,
                      u_full_name = Some (strip (field_data req ''full_name'')),
                      u_role = ''patient''\<rparr>],
                  patients := patients db @
                    [\<lparr>p_id = next_id (map p_id (patients db)),
                      p_user_id = next_id (map u_id (users db)), p_dob = None,
                      p_gender = None, p_contact = None\<rparr>]\<rparr>)"
    by (simp add: register_def Let_def)
next
  assume "list_ex (\<lambda>u. u_username u = strip (field_data req ''username'') \<or>
                       u_email u = strip (field_data req ''email'')) (users db)"
  then have "find (\<lambda>u. u_username u = strip (field_data req ''username'') \<or>
                      u_email u = strip (field_data req ''email'')) (users db) \<noteq> None"
    by (auto simp add: find_None_iff list_ex_iff)
  with assms show "register E db req =
            reply (Render ''register.html'')
              [(''Username or email already exists.'', ''danger'')] db"
    by (simp add: register_def Let_def)
qed

lemma sample_registrations:
  "RegisterForm_ok ref_world (registration u e) =
     (u \<noteq> [] \<and> strip u \<noteq> [] \<and> e \<noteq> [] \<and> strip e \<noteq> [] \<and> CHR ''@'' \<in> set e)"
  "field_data (registration u e) ''username'' = u"
  "field_data (registration u e) ''email'' = e"
  "field_data (registration u e) ''password'' = ''pw9''"
  "strip (field_data (registration u e) ''full_name'') = ''Carol Jones''"
  by (auto simp add: RegisterForm_ok_def registration_def post_def data_required_def
      field_data_def ref_world_def strip_def isspace_def)

theorem registration_creates_pair_witness:
  "register ref_world sample_db (registration '' carol'' ''carol@example.com'') =
     reply (Redirect ''main.login'' None)
       [(''Registration successful! Please log in.'', ''success'')]
       (sample_db\<lparr>users := users sample_db @
           [\<lparr>u_id = 5, u_username = ''carol'', u_email = ''carol@example.com'',
             u_password_hash = ''sha$9wp'', u_full_name = Some ''Carol Jones'',
             u_role = ''patient''\<rparr>],
         patients := patients sample_db @
           [\<lparr>p_id = 2, p_user_id = 5, p_dob = None, p_gender = None, p_contact = None\<rparr>]\<rparr>) \<and>
   register ref_world sample_db (registration ''carol'' ''alice@example.com'') =
     reply (Render ''register.html'')
       [(''Username or email already exists.'', ''danger'')] sample_db"
proof -
  have f: "RegisterForm_ok ref_world (registration '' carol'' ''carol@example.com'')"
    "RegisterForm_ok ref_world (registration ''carol'' ''alice@example.com'')"
    by (simp_all add: sample_registrations strip_def isspace_def)
  have st: "strip '' carol'' = ''carol''" "strip ''carol@example.com'' = ''carol@example.com''"
    "strip ''carol'' = ''carol''" "strip ''alice@example.com'' = ''alice@example.com''"
    by (simp_all add: strip_def isspace_def)
  have fresh: "list_all (\<lambda>u. u_username u \<noteq> ''carol'' \<and> u_email u \<noteq> ''carol@example.com'')
                 (users sample_db)"
    by (simp add: sample_db_def)
  have taken: "list_ex (\<lambda>u. u_username u = ''carol'' \<or> u_email u = ''alice@example.com'')
                 (users sample_db)"
    by (simp add: sample_db_def)
  have h: "generate_password_hash ref_world ''pw9'' = Inr ''sha$9wp''"
    by (simp add: ref_world_def)
  have ok: "accepts ref_world Insert_user" "accepts ref_world Insert_patient"
    "accepts ref_world Commit"
    by (simp_all add: ref_world_def)
  have fk: "list_all (\<lambda>p. p_user_id p \<in> set (map u_id (users sample_db))) (patients sample_db)"
    by (simp add: sample_db_def)
  have n: "next_id (map u_id (users sample_db)) = 5" "next_id (map p_id (patients sample_db)) = 2"
    by (simp_all add: next_id_def sample_db_def)
  note T1 = registration_creates_pair [OF f(1), of sample_db "''sha$9wp''", THEN conjunct1,
      unfolded sample_registrations st n]
  note T2 = registration_creates_pair [OF f(2), of sample_db "[]", THEN conjunct2,
      unfolded sample_registrations st]
  from T1 fresh h ok fk T2 taken show ?thesis by simp
qed

end
